theory Spec2Isabelle
  imports Main
begin

section \<open>Factors and terms\<close>

text \<open>
  The module \<^verbatim>\<open>charlton/desc.py\<close> turns the parse tree of a model formula into a
  \<^verbatim>\<open>ModelDesc\<close>: two ordered lists of terms, each term an ordered tuple of factors
  that compares like a set.
\<close>

text \<open>
  Modelled from the spec: \<^verbatim>\<open>Origin\<close>, the source span of \<^verbatim>\<open>charlton.origin\<close>
  (the text of the formula, a start and an end offset).
\<close>

datatype Origin = Origin (origin_code: string) (origin_start: nat) (origin_end: nat)

text \<open>
  Modelled from the spec: \<^verbatim>\<open>EvalEnvironment\<close> of \<^verbatim>\<open>charlton.eval\<close>, the captured
  namespace of an expression factor. The evaluator only stores it in the factors it
  builds, so a handle that can be compared is all that is kept of it.
\<close>

type_synonym EvalEnvironment = nat

text \<open>
  Modelled from the spec: \<^verbatim>\<open>EvalFactor(code, eval_env, origin=None)\<close>, the expression
  factor of \<^verbatim>\<open>charlton.eval\<close>: its name is its source text, and it carries an
  evaluation environment and an origin. \<^verbatim>\<open>LookupFactor(name, origin=None)\<close> is the
  factor class of the module itself.
\<close>

datatype Factor =
    LookupFactor (lookup_name: string) (lookup_origin: "Origin option")
  | EvalFactor (eval_code: string) (eval_env: EvalEnvironment) (eval_origin: "Origin option")

fun factor_name :: "Factor \<Rightarrow> string" where
  "factor_name (LookupFactor n orig) = n"
| "factor_name (EvalFactor c env orig) = c"

text \<open>
  Modelled from the spec: the equality of an \<^verbatim>\<open>EvalFactor\<close>, by its identity key, the
  code and the environment; the origin takes no part (\<^verbatim>\<open>EvalFactor("y", env)\<close> equals
  the factor the evaluator builds for \<^verbatim>\<open>y\<close>, which has an origin).
  \<^verbatim>\<open>LookupFactor.__eq__\<close> is in the module: the other object is a \<^verbatim>\<open>LookupFactor\<close>
  with the same name.
\<close>

fun factor_eq :: "Factor \<Rightarrow> Factor \<Rightarrow> bool" where
  "factor_eq (LookupFactor n orig) other =
     (case other of LookupFactor n' orig' \<Rightarrow> n = n' | EvalFactor c' env' orig' \<Rightarrow> False)"
| "factor_eq (EvalFactor c env orig) other =
     (case other of LookupFactor n' orig' \<Rightarrow> False | EvalFactor c' env' orig' \<Rightarrow> c = c' \<and> env = env')"

text \<open>
  What a factor is hashed on: \<^verbatim>\<open>LookupFactor.__hash__\<close> hashes the pair
  \<^verbatim>\<open>(LookupFactor, self._name)\<close>; an \<^verbatim>\<open>EvalFactor\<close> is hashed on its identity key.
\<close>

datatype hash_key = LookupKey string | EvalKey string EvalEnvironment

fun factor_key :: "Factor \<Rightarrow> hash_key" where
  "factor_key (LookupFactor n orig) = LookupKey n"
| "factor_key (EvalFactor c env orig) = EvalKey c env"

text \<open>
  Python's \<^verbatim>\<open>obj in seq\<close> on a list or tuple: some element equals \<^verbatim>\<open>obj\<close>, by the
  \<^verbatim>\<open>__eq__\<close> of the objects, here the parameter \<open>eq\<close>.
\<close>

definition contains :: "('a \<Rightarrow> 'a \<Rightarrow> bool) \<Rightarrow> 'a \<Rightarrow> 'a list \<Rightarrow> bool" where
  "contains eq obj seq = list_ex (\<lambda>x. eq obj x) seq"

text \<open>
  Modelled from the spec: \<^verbatim>\<open>to_unique_tuple\<close> of \<^verbatim>\<open>charlton.util\<close>, which removes
  duplicates (by equality) and keeps every first occurrence, in order. The loop appends
  an object to the new sequence when the new sequence does not hold it yet.
\<close>

fun unique_loop :: "('a \<Rightarrow> 'a \<Rightarrow> bool) \<Rightarrow> 'a list \<Rightarrow> 'a list \<Rightarrow> 'a list" where
  "unique_loop eq seq_new [] = seq_new"
| "unique_loop eq seq_new (obj # seq) =
     unique_loop eq (if contains eq obj seq_new then seq_new else seq_new @ [obj]) seq"

definition to_unique_tuple :: "('a \<Rightarrow> 'a \<Rightarrow> bool) \<Rightarrow> 'a list \<Rightarrow> 'a list" where
  "to_unique_tuple eq seq = unique_loop eq [] seq"

text \<open>
  A \<^verbatim>\<open>Term\<close> object holds its tuple of factors. Python 2 gives \<^verbatim>\<open>!=\<close> no default
  from \<^verbatim>\<open>__eq__\<close>; the class defines no \<^verbatim>\<open>__ne__\<close>, so \<^verbatim>\<open>a != b\<close> on two terms
  is \<^verbatim>\<open>a is not b\<close>. The one \<^verbatim>\<open>!=\<close> of the module compares with the module-level
  object \<^verbatim>\<open>INTERCEPT = Term([])\<close>. So that object is a value of its own, and every
  other object is a \<open>Term\<close> with its factors: \<open>t \<noteq> INTERCEPT\<close> is \<^verbatim>\<open>t != INTERCEPT\<close>.
\<close>

datatype Term = INTERCEPT | Term "Factor list"

fun factors :: "Term \<Rightarrow> Factor list" where
  "factors INTERCEPT = to_unique_tuple factor_eq []"
| "factors (Term fs) = fs"

text \<open>\<^verbatim>\<open>Term.__init__\<close>: a new object, never the module-level one.\<close>

definition Term_init :: "Factor list \<Rightarrow> Term" where
  "Term_init fs = Term (to_unique_tuple factor_eq fs)"

text \<open>
  \<^verbatim>\<open>frozenset(t.factors)\<close>: the set of the factors up to their equality, that is the
  set of their keys.
\<close>

definition frozenset :: "Factor list \<Rightarrow> hash_key set" where
  "frozenset fs = factor_key ` set fs"

text \<open>\<^verbatim>\<open>Term.__eq__\<close> (the other object is a \<^verbatim>\<open>Term\<close> by its type).\<close>

definition Term_eq :: "Term \<Rightarrow> Term \<Rightarrow> bool" where
  "Term_eq self other = (frozenset (factors other) = frozenset (factors self))"

text \<open>
  \<^verbatim>\<open>Term.__hash__\<close>: \<^verbatim>\<open>hash((Term, frozenset(self.factors)))\<close>. The builtin \<^verbatim>\<open>hash\<close>
  on the pair of the class and a frozenset is the parameter \<open>hash_Term_with\<close>.
\<close>

definition Term_hash :: "(hash_key set \<Rightarrow> int) \<Rightarrow> Term \<Rightarrow> int" where
  "Term_hash hash_Term_with self = hash_Term_with (frozenset (factors self))"

text \<open>Python's \<^verbatim>\<open>sep.join(strings)\<close>.\<close>

fun join :: "string \<Rightarrow> string list \<Rightarrow> string" where
  "join sep [] = []"
| "join sep [s] = s"
| "join sep (s # t # ss) = s @ sep @ join sep (t # ss)"

text \<open>\<^verbatim>\<open>Term.name\<close>.\<close>

definition name :: "Term \<Rightarrow> string" where
  "name self =
     (if factors self \<noteq> [] then join '':'' (map factor_name (factors self))
      else ''Intercept'')"

section \<open>Parse trees, errors and intermediate results\<close>

text \<open>
  Modelled from the spec: \<^verbatim>\<open>Token\<close> and \<^verbatim>\<open>ParseNode\<close> of
  \<^verbatim>\<open>charlton.parse_formula\<close>, the input of the evaluator: a node has a kind, the token
  it was read from, its argument nodes and an origin; a token has a kind, an origin and
  the payload \<^verbatim>\<open>extra\<close>, the source text of a leaf (the evaluator reads it on leaves
  only; on an operator token it is left empty here).
\<close>

datatype Token = Token (token_type: string) (token_origin: Origin) (extra: string)

datatype ParseNode =
  ParseNode (node_type: string) (token: Token) (args: "ParseNode list") (origin: Origin)

text \<open>
  The object handed over where an origin is expected: \<^verbatim>\<open>CharltonError\<close> and
  \<^verbatim>\<open>IntermediateExpr\<close> receive an \<^verbatim>\<open>Origin\<close>, a node or a token.
\<close>

datatype origin_obj = OriginObj Origin | NodeObj ParseNode | TokenObj Token

text \<open>
  The exceptions: \<^verbatim>\<open>CharltonError(message, origin)\<close> (the origin as it is passed,
  which may be \<^verbatim>\<open>None\<close>), a failed \<^verbatim>\<open>assert\<close>, an index
  out of range, a call with the wrong number of arguments and a missing attribute.
\<close>

datatype error =
    CharltonError string "origin_obj option"
  | AssertionError
  | IndexError
  | TypeError
  | AttributeError

record IntermediateExpr =
  intercept :: bool
  intercept_origin :: "origin_obj option"
  intercept_removed :: bool
  terms :: "Term list"

text \<open>
  \<^verbatim>\<open>IntermediateExpr.__init__\<close> with its two assertions, in their order. An origin
  object is true; \<^verbatim>\<open>None\<close> is not.
\<close>

definition IntermediateExpr_init ::
  "bool \<Rightarrow> origin_obj option \<Rightarrow> bool \<Rightarrow> Term list \<Rightarrow> error + IntermediateExpr" where
  "IntermediateExpr_init icpt icpt_origin icpt_removed ts =
     (if icpt \<and> icpt_origin = None then Inl AssertionError
      else if icpt \<and> icpt_removed then Inl AssertionError
      else Inr \<lparr>intercept = icpt, intercept_origin = icpt_origin,
                intercept_removed = icpt_removed,
                terms = to_unique_tuple Term_eq ts\<rparr>)"

record ModelDesc =
  lhs_termlist :: "Term list"
  rhs_termlist :: "Term list"

definition ModelDesc_init :: "Term list \<Rightarrow> Term list \<Rightarrow> ModelDesc" where
  "ModelDesc_init lhs rhs =
     \<lparr>lhs_termlist = to_unique_tuple Term_eq lhs,
      rhs_termlist = to_unique_tuple Term_eq rhs\<rparr>"

text \<open>What a rule of the evaluator returns.\<close>

datatype result = Expr IntermediateExpr | Desc ModelDesc

section \<open>ModelDesc.describe\<close>

definition term_code :: "Term \<Rightarrow> string" where
  "term_code t = (if Term_eq t INTERCEPT then ''1'' else name t)"

text \<open>
  \<^verbatim>\<open>describe\<close>. The comparison of the right-hand tuple with \<^verbatim>\<open>(INTERCEPT,)\<close> and the
  test \<^verbatim>\<open>INTERCEPT not in\<close> go through \<^verbatim>\<open>Term.__eq__\<close>; the filter
  \<^verbatim>\<open>term != INTERCEPT\<close> is Python 2's default \<^verbatim>\<open>!=\<close>, the identity of the objects.
\<close>

definition describe :: "ModelDesc \<Rightarrow> string" where
  "describe self =
     (let result = join '' + '' (map term_code (lhs_termlist self));
          result = (if result \<noteq> [] then result @ '' ~ '' else result @ ''~ '')
      in if list_all2 Term_eq (rhs_termlist self) [INTERCEPT]
         then result @ term_code INTERCEPT
         else
           (let term_names =
                  (if \<not> contains Term_eq INTERCEPT (rhs_termlist self) then [''0''] else []);
                term_names = term_names
                  @ map term_code
                      (filter (\<lambda>t. t \<noteq> INTERCEPT) (rhs_termlist self))
            in result @ join '' + '' term_names))"

section \<open>The operator rules\<close>

text \<open>\<^verbatim>\<open>tree.args[i]\<close>: an index out of range raises.\<close>

definition arg :: "ParseNode \<Rightarrow> nat \<Rightarrow> error + ParseNode" where
  "arg tree i = (if i < length (args tree) then Inr (args tree ! i) else Inl IndexError)"

text \<open>
  \<^verbatim>\<open>[evaluator.eval(arg) for arg in tree.args]\<close>: the arguments in order, up to the
  first that raises.
\<close>

fun eval_args ::
  "(ParseNode \<Rightarrow> error + IntermediateExpr) \<Rightarrow> ParseNode list \<Rightarrow> error + IntermediateExpr list" where
  "eval_args ev [] = Inr []"
| "eval_args ev (a # as) =
     (case ev a of
        Inl e \<Rightarrow> Inl e
      | Inr x \<Rightarrow> (case eval_args ev as of Inl e \<Rightarrow> Inl e | Inr xs \<Rightarrow> Inr (x # xs)))"

definition maybe_add_intercept :: "bool \<Rightarrow> Term list \<Rightarrow> Term list" where
  "maybe_add_intercept doit ts = (if doit then [INTERCEPT] @ ts else ts)"

text \<open>
  The rules take the evaluator as what they use of it: its method \<^verbatim>\<open>eval\<close> (with
  \<^verbatim>\<open>require_evalexpr\<close> left at its default, so that it returns an
  \<^verbatim>\<open>IntermediateExpr\<close>), here \<open>ev\<close>, and its \<^verbatim>\<open>_factor_eval_env\<close>.
\<close>

definition eval_any_tilde ::
  "(ParseNode \<Rightarrow> error + IntermediateExpr) \<Rightarrow> ParseNode \<Rightarrow> error + ModelDesc" where
  "eval_any_tilde ev tree =
     (case eval_args ev (args tree) of
        Inl e \<Rightarrow> Inl e
      | Inr exprs \<Rightarrow>
          (case (if length exprs = 1
                 then (case IntermediateExpr_init False None True [] of
                         Inl e \<Rightarrow> Inl e
                       | Inr zero \<Rightarrow> Inr (zero # exprs))
                 else Inr exprs) of
             Inl e \<Rightarrow> Inl e
           | Inr exprs \<Rightarrow>
               (case exprs of
                  [e0, e1] \<Rightarrow>
                    Inr (ModelDesc_init
                          (maybe_add_intercept (intercept e0) (terms e0))
                          (maybe_add_intercept (\<not> intercept_removed e1) (terms e1)))
                | _ \<Rightarrow> Inl AssertionError)))"

definition eval_binary_plus ::
  "(ParseNode \<Rightarrow> error + IntermediateExpr) \<Rightarrow> ParseNode \<Rightarrow> error + IntermediateExpr" where
  "eval_binary_plus ev tree =
     (case arg tree 0 of Inl e \<Rightarrow> Inl e | Inr a0 \<Rightarrow>
      case ev a0 of Inl e \<Rightarrow> Inl e | Inr left_expr \<Rightarrow>
      case arg tree 1 of Inl e \<Rightarrow> Inl e | Inr a1 \<Rightarrow>
      if node_type a1 = ''ZERO''
      then IntermediateExpr_init False None True (terms left_expr)
      else
        (case ev a1 of Inl e \<Rightarrow> Inl e | Inr right_expr \<Rightarrow>
         if intercept right_expr
         then IntermediateExpr_init True (intercept_origin right_expr) False
                (terms left_expr @ terms right_expr)
         else IntermediateExpr_init (intercept left_expr) (intercept_origin left_expr)
                (intercept_removed left_expr) (terms left_expr @ terms right_expr)))"

definition eval_binary_minus ::
  "(ParseNode \<Rightarrow> error + IntermediateExpr) \<Rightarrow> ParseNode \<Rightarrow> error + IntermediateExpr" where
  "eval_binary_minus ev tree =
     (case arg tree 0 of Inl e \<Rightarrow> Inl e | Inr a0 \<Rightarrow>
      case ev a0 of Inl e \<Rightarrow> Inl e | Inr left_expr \<Rightarrow>
      case arg tree 1 of Inl e \<Rightarrow> Inl e | Inr a1 \<Rightarrow>
      if node_type a1 = ''ZERO''
      then IntermediateExpr_init True (Some (NodeObj a1)) False (terms left_expr)
      else if node_type a1 = ''ONE''
      then IntermediateExpr_init False None True (terms left_expr)
      else
        (case ev a1 of Inl e \<Rightarrow> Inl e | Inr right_expr \<Rightarrow>
         let ts = filter (\<lambda>t. \<not> contains Term_eq t (terms right_expr)) (terms left_expr)
         in if intercept right_expr
            then IntermediateExpr_init False None True ts
            else IntermediateExpr_init (intercept left_expr) (intercept_origin left_expr)
                   (intercept_removed left_expr) ts))"

definition check_interactable :: "IntermediateExpr \<Rightarrow> error + unit" where
  "check_interactable expr =
     (if intercept expr
      then Inl (CharltonError ''intercept term cannot interact with anything else''
                  (intercept_origin expr))
      else Inr ())"

text \<open>
  \<^verbatim>\<open>_interaction\<close>: both operands are checked, the left one first; then one term for
  every pair of a left and a right term, the left terms in the outer loop.
\<close>

definition interaction :: "IntermediateExpr \<Rightarrow> IntermediateExpr \<Rightarrow> error + IntermediateExpr" where
  "interaction left_expr right_expr =
     (case check_interactable left_expr of Inl e \<Rightarrow> Inl e | Inr u \<Rightarrow>
      case check_interactable right_expr of Inl e \<Rightarrow> Inl e | Inr u \<Rightarrow>
      IntermediateExpr_init False None False
        (concat (map (\<lambda>l_term.
                   map (\<lambda>r_term. Term_init (factors l_term @ factors r_term))
                     (terms right_expr))
                 (terms left_expr))))"

text \<open>
  \<^verbatim>\<open>_eval_binary_prod\<close>: \<^verbatim>\<open>exprs[0]\<close> and \<^verbatim>\<open>exprs[1]\<close> are read before
  \<^verbatim>\<open>_interaction(*exprs)\<close> is called, which takes two arguments.
\<close>

definition eval_binary_prod ::
  "(ParseNode \<Rightarrow> error + IntermediateExpr) \<Rightarrow> ParseNode \<Rightarrow> error + IntermediateExpr" where
  "eval_binary_prod ev tree =
     (case eval_args ev (args tree) of
        Inl e \<Rightarrow> Inl e
      | Inr exprs \<Rightarrow>
          (case exprs of
             [] \<Rightarrow> Inl IndexError
           | [e0] \<Rightarrow> Inl IndexError
           | [e0, e1] \<Rightarrow>
               (case interaction e0 e1 of
                  Inl e \<Rightarrow> Inl e
                | Inr both \<Rightarrow>
                    IntermediateExpr_init False None False (terms e0 @ terms e1 @ terms both))
           | _ \<Rightarrow> Inl TypeError))"

definition eval_binary_div ::
  "(ParseNode \<Rightarrow> error + IntermediateExpr) \<Rightarrow> ParseNode \<Rightarrow> error + IntermediateExpr" where
  "eval_binary_div ev tree =
     (case arg tree 0 of Inl e \<Rightarrow> Inl e | Inr a0 \<Rightarrow>
      case ev a0 of Inl e \<Rightarrow> Inl e | Inr left_expr \<Rightarrow>
      case arg tree 1 of Inl e \<Rightarrow> Inl e | Inr a1 \<Rightarrow>
      case ev a1 of Inl e \<Rightarrow> Inl e | Inr right_expr \<Rightarrow>
      case check_interactable left_expr of Inl e \<Rightarrow> Inl e | Inr u \<Rightarrow>
      let left_factors = concat (map factors (terms left_expr)) in
      case IntermediateExpr_init False None False [Term_init left_factors] of
        Inl e \<Rightarrow> Inl e
      | Inr left_combined_expr \<Rightarrow>
          (case interaction left_combined_expr right_expr of
             Inl e \<Rightarrow> Inl e
           | Inr nested \<Rightarrow>
               IntermediateExpr_init False None False (terms left_expr @ terms nested)))"

definition eval_binary_interact ::
  "(ParseNode \<Rightarrow> error + IntermediateExpr) \<Rightarrow> ParseNode \<Rightarrow> error + IntermediateExpr" where
  "eval_binary_interact ev tree =
     (case eval_args ev (args tree) of
        Inl e \<Rightarrow> Inl e
      | Inr exprs \<Rightarrow>
          (case exprs of
             [e0, e1] \<Rightarrow> interaction e0 e1
           | _ \<Rightarrow> Inl TypeError))"

text \<open>
  Python 2's \<^verbatim>\<open>int(s)\<close> on a string: white space before and after it is skipped, then
  comes an optional sign, white space again, and one decimal digit or more; \<open>None\<close>
  stands for \<^verbatim>\<open>ValueError\<close>. So \<^verbatim>\<open>int('+ 2')\<close> is 2, and a suffix as in \<^verbatim>\<open>'2L'\<close> is
  refused.
\<close>

definition is_space :: "char \<Rightarrow> bool" where
  "is_space c = (c \<in> set [CHR '' '', CHR 0x09, CHR 0x0A, CHR 0x0B, CHR 0x0C, CHR 0x0D])"

definition is_digit :: "char \<Rightarrow> bool" where
  "is_digit c = (48 \<le> (of_char c :: nat) \<and> (of_char c :: nat) \<le> 57)"

definition strip :: "string \<Rightarrow> string" where
  "strip s = rev (dropWhile is_space (rev (dropWhile is_space s)))"

definition digits_value :: "string \<Rightarrow> int option" where
  "digits_value ds =
     (if ds \<noteq> [] \<and> list_all is_digit ds
      then Some (foldl (\<lambda>acc c. 10 * acc + (int (of_char c) - 48)) 0 ds)
      else None)"

definition int_of_str :: "string \<Rightarrow> int option" where
  "int_of_str s =
     (case strip s of
        [] \<Rightarrow> None
      | c # cs \<Rightarrow>
          if c = CHR ''-'' then map_option uminus (digits_value (dropWhile is_space cs))
          else if c = CHR ''+'' then digits_value (dropWhile is_space cs)
          else digits_value (c # cs))"

text \<open>
  The loop of \<^verbatim>\<open>_eval_binary_power\<close>, \<^verbatim>\<open>for i in xrange(1, power)\<close>, with the number
  of rounds that are left.
\<close>

fun power_loop ::
  "IntermediateExpr \<Rightarrow> nat \<Rightarrow> IntermediateExpr \<Rightarrow> Term list \<Rightarrow> error + Term list" where
  "power_loop left_expr 0 big_expr all_terms = Inr all_terms"
| "power_loop left_expr (Suc n) big_expr all_terms =
     (case interaction left_expr big_expr of
        Inl e \<Rightarrow> Inl e
      | Inr big_expr' \<Rightarrow> power_loop left_expr n big_expr' (all_terms @ terms big_expr'))"

definition power_message :: string where
  "power_message = [CHR 0x27] @ ''**'' @ [CHR 0x27] @ '' requires a positive integer''"

definition eval_binary_power ::
  "(ParseNode \<Rightarrow> error + IntermediateExpr) \<Rightarrow> ParseNode \<Rightarrow> error + IntermediateExpr" where
  "eval_binary_power ev tree =
     (case arg tree 0 of Inl e \<Rightarrow> Inl e | Inr a0 \<Rightarrow>
      case ev a0 of Inl e \<Rightarrow> Inl e | Inr left_expr \<Rightarrow>
      case check_interactable left_expr of Inl e \<Rightarrow> Inl e | Inr u \<Rightarrow>
      case arg tree 1 of Inl e \<Rightarrow> Inl e | Inr a1 \<Rightarrow>
      let power = (if node_type a1 \<in> set [''ONE'', ''NUMBER'']
                   then (case int_of_str (extra (token a1)) of
                           Some k \<Rightarrow> k
                         | None \<Rightarrow> - 1)
                   else - 1)
      in if power < 1
         then Inl (CharltonError power_message (Some (NodeObj a1)))
         else
           (let power = min (int (length (terms left_expr))) power in
            case power_loop left_expr (nat (power - 1)) left_expr (terms left_expr) of
              Inl e \<Rightarrow> Inl e
            | Inr all_terms \<Rightarrow> IntermediateExpr_init False None False all_terms))"

definition eval_unary_plus ::
  "(ParseNode \<Rightarrow> error + IntermediateExpr) \<Rightarrow> ParseNode \<Rightarrow> error + IntermediateExpr" where
  "eval_unary_plus ev tree =
     (case arg tree 0 of Inl e \<Rightarrow> Inl e | Inr a0 \<Rightarrow> ev a0)"

definition eval_unary_minus :: "ParseNode \<Rightarrow> error + IntermediateExpr" where
  "eval_unary_minus tree =
     (case arg tree 0 of Inl e \<Rightarrow> Inl e | Inr a0 \<Rightarrow>
      if node_type a0 = ''ZERO''
      then IntermediateExpr_init True (Some (OriginObj (origin tree))) False []
      else if node_type a0 = ''ONE''
      then IntermediateExpr_init False None True []
      else Inl (CharltonError ''Unary minus can only be applied to 1 or 0''
                  (Some (NodeObj tree))))"

definition eval_zero :: "ParseNode \<Rightarrow> error + IntermediateExpr" where
  "eval_zero tree = IntermediateExpr_init False None True []"

definition eval_one :: "ParseNode \<Rightarrow> error + IntermediateExpr" where
  "eval_one tree = IntermediateExpr_init True (Some (OriginObj (origin tree))) False []"

definition number_message :: string where
  "number_message =
     ''numbers besides '' @ [CHR 0x27] @ ''0'' @ [CHR 0x27] @ '' and '' @ [CHR 0x27] @ ''1''
       @ [CHR 0x27] @ '' are only allowed with **''"

definition eval_number :: "ParseNode \<Rightarrow> error + IntermediateExpr" where
  "eval_number tree = Inl (CharltonError number_message (Some (NodeObj tree)))"

definition eval_python_expr :: "EvalEnvironment \<Rightarrow> ParseNode \<Rightarrow> error + IntermediateExpr" where
  "eval_python_expr factor_eval_env tree =
     (let factor = EvalFactor (extra (token tree)) factor_eval_env (Some (origin tree))
      in IntermediateExpr_init False None False [Term_init [factor]])"

section \<open>The evaluator\<close>

text \<open>
  The table \<^verbatim>\<open>Evaluator._evaluators\<close> maps a pair of an operator and an arity to a
  rule. The rules are a closed set, named here by a datatype; \<open>run_rule\<close> calls the
  rule a name stands for.
\<close>

datatype rule =
    Rule_any_tilde | Rule_binary_plus | Rule_binary_minus | Rule_binary_prod
  | Rule_binary_div | Rule_binary_interact | Rule_binary_power | Rule_unary_plus
  | Rule_unary_minus | Rule_zero | Rule_one | Rule_number | Rule_python_expr

definition add_op ::
  "(string \<times> nat \<rightharpoonup> rule) \<Rightarrow> string \<Rightarrow> nat \<Rightarrow> rule \<Rightarrow> (string \<times> nat \<rightharpoonup> rule)" where
  "add_op evaluators op arity evaluator = evaluators((op, arity) \<mapsto> evaluator)"

text \<open>\<^verbatim>\<open>Evaluator.__init__\<close>: the table after the fourteen calls of \<^verbatim>\<open>add_op\<close>.\<close>

definition evaluators :: "string \<times> nat \<rightharpoonup> rule" where
  "evaluators =
     foldl (\<lambda>m (op, arity, r). add_op m op arity r) Map.empty
       [(''~'', 2, Rule_any_tilde),
        (''~'', 1, Rule_any_tilde),
        (''+'', 2, Rule_binary_plus),
        (''-'', 2, Rule_binary_minus),
        (''*'', 2, Rule_binary_prod),
        (''/'', 2, Rule_binary_div),
        ('':'', 2, Rule_binary_interact),
        (''**'', 2, Rule_binary_power),
        (''+'', 1, Rule_unary_plus),
        (''-'', 1, Rule_unary_minus),
        (''ZERO'', 0, Rule_zero),
        (''ONE'', 0, Rule_one),
        (''NUMBER'', 0, Rule_number),
        (''PYTHON_EXPR'', 0, Rule_python_expr)]"

fun run_rule ::
  "rule \<Rightarrow> (ParseNode \<Rightarrow> error + IntermediateExpr) \<Rightarrow> EvalEnvironment \<Rightarrow> ParseNode
     \<Rightarrow> error + result" where
  "run_rule Rule_any_tilde ev env tree = map_sum id Desc (eval_any_tilde ev tree)"
| "run_rule Rule_binary_plus ev env tree = map_sum id Expr (eval_binary_plus ev tree)"
| "run_rule Rule_binary_minus ev env tree = map_sum id Expr (eval_binary_minus ev tree)"
| "run_rule Rule_binary_prod ev env tree = map_sum id Expr (eval_binary_prod ev tree)"
| "run_rule Rule_binary_div ev env tree = map_sum id Expr (eval_binary_div ev tree)"
| "run_rule Rule_binary_interact ev env tree = map_sum id Expr (eval_binary_interact ev tree)"
| "run_rule Rule_binary_power ev env tree = map_sum id Expr (eval_binary_power ev tree)"
| "run_rule Rule_unary_plus ev env tree = map_sum id Expr (eval_unary_plus ev tree)"
| "run_rule Rule_unary_minus ev env tree = map_sum id Expr (eval_unary_minus tree)"
| "run_rule Rule_zero ev env tree = map_sum id Expr (eval_zero tree)"
| "run_rule Rule_one ev env tree = map_sum id Expr (eval_one tree)"
| "run_rule Rule_number ev env tree = map_sum id Expr (eval_number tree)"
| "run_rule Rule_python_expr ev env tree = map_sum id Expr (eval_python_expr env tree)"

text \<open>
  Inside a rule the value of \<^verbatim>\<open>evaluator.eval(arg)\<close> is used as an
  \<^verbatim>\<open>IntermediateExpr\<close>. With \<^verbatim>\<open>require_evalexpr\<close> true \<^verbatim>\<open>eval\<close> returns nothing
  else (\<open>eval_True_not_Desc\<close> below); reading \<^verbatim>\<open>terms\<close> or \<^verbatim>\<open>intercept\<close> of a
  \<^verbatim>\<open>ModelDesc\<close> would raise \<^verbatim>\<open>AttributeError\<close>.
\<close>

fun expr_of :: "error + result \<Rightarrow> error + IntermediateExpr" where
  "expr_of (Inl e) = Inl e"
| "expr_of (Inr (Expr x)) = Inr x"
| "expr_of (Inr (Desc d)) = Inl AttributeError"

definition unknown_message :: "string \<Rightarrow> string" where
  "unknown_message op =
     ''I don'' @ [CHR 0x27] @ ''t know how to evaluate this '' @ [CHR 0x27] @ op @ [CHR 0x27]
       @ '' operator''"

text \<open>
  The rules call the evaluator on arguments of their node only, so the recursion of
  \<^verbatim>\<open>Evaluator.eval\<close> goes down the tree.
\<close>

lemma eval_args_cong:
  "(\<And>t. t \<in> set ts \<Longrightarrow> ev t = ev' t) \<Longrightarrow> eval_args ev ts = eval_args ev' ts"
  by (induction ts) (auto split: sum.splits)

lemma run_rule_cong [fundef_cong]:
  assumes "r = r'" and "env = env'" and "tree = tree'"
    and "\<And>t. t \<in> set (args tree') \<Longrightarrow> ev t = ev' t"
  shows "run_rule r ev env tree = run_rule r' ev' env' tree'"
proof -
  have a: "eval_args ev (args tree') = eval_args ev' (args tree')"
    using assms(4) by (rule eval_args_cong)
  have n: "\<And>i a. arg tree' i = Inr a \<Longrightarrow> ev a = ev' a"
    using assms(4) by (auto simp: arg_def split: if_splits)
  show ?thesis
    unfolding assms(1-3)
    by (cases r')
      (auto simp: eval_any_tilde_def eval_binary_plus_def eval_binary_minus_def
        eval_binary_prod_def eval_binary_div_def eval_binary_interact_def
        eval_binary_power_def eval_unary_plus_def a n split: sum.splits)
qed

lemma size_arg: "t \<in> set (args tree) \<Longrightarrow> size t < size tree"
  by (cases tree) (auto simp: less_Suc_eq_le dest: size_list_estimation')

text \<open>
  \<^verbatim>\<open>Evaluator.eval\<close>. A rule returns an \<^verbatim>\<open>IntermediateExpr\<close> or a \<^verbatim>\<open>ModelDesc\<close>, so
  of the two errors for a value that is no \<^verbatim>\<open>IntermediateExpr\<close> only the one for a
  \<^verbatim>\<open>ModelDesc\<close> can be raised.
\<close>

function eval :: "EvalEnvironment \<Rightarrow> ParseNode \<Rightarrow> bool \<Rightarrow> error + result" where
  "eval factor_eval_env tree require_evalexpr =
     (case evaluators (node_type tree, length (args tree)) of
        None \<Rightarrow>
          Inl (CharltonError (unknown_message (node_type tree)) (Some (TokenObj (token tree))))
      | Some r \<Rightarrow>
          (case run_rule r (\<lambda>t. expr_of (eval factor_eval_env t True)) factor_eval_env tree of
             Inl e \<Rightarrow> Inl e
           | Inr res \<Rightarrow>
               (case res of
                  Expr x \<Rightarrow> Inr res
                | Desc d \<Rightarrow>
                    if require_evalexpr
                    then Inl (CharltonError ''~ can only be used once, and only at the top level''
                                (Some (NodeObj tree)))
                    else Inr res)))"
  by pat_completeness auto
termination
  by (relation "measure (\<lambda>(env, tree, req). size tree)") (auto simp: size_arg)

text \<open>
  \<^verbatim>\<open>ModelDesc.from_formula\<close> on a tree (the parser and the namespace of the factors
  are outside this module); its last line asserts that the value is a \<^verbatim>\<open>ModelDesc\<close>.
\<close>

definition from_formula :: "ParseNode \<Rightarrow> EvalEnvironment \<Rightarrow> error + ModelDesc" where
  "from_formula tree factor_eval_env =
     (case eval factor_eval_env tree False of
        Inl e \<Rightarrow> Inl e
      | Inr (Desc d) \<Rightarrow> Inr d
      | Inr (Expr x) \<Rightarrow> Inl AssertionError)"

text \<open>What \<^verbatim>\<open>Term.__eq__\<close> compares: the frozenset of the factors of a term.\<close>

definition term_key :: "Term \<Rightarrow> hash_key set" where
  "term_key t = frozenset (factors t)"

declare eval.simps [simp del]

section \<open>Invariants of intermediate results\<close>

text \<open>
  The two assertions of \<^verbatim>\<open>IntermediateExpr.__init__\<close> as a predicate: the intercept is
  not both present and removed, and a present intercept has an origin.
\<close>

definition intercept_invariant :: "IntermediateExpr \<Rightarrow> bool" where
  "intercept_invariant x =
     (\<not> (intercept x \<and> intercept_removed x)
      \<and> (intercept x \<longrightarrow> intercept_origin x \<noteq> None))"

text \<open>
  The term list of a result of the evaluator: no two terms are equal, and no term is
  empty (the intercept is pending in the flags, never a term of the list).
\<close>

definition unique_terms :: "Term list \<Rightarrow> bool" where
  "unique_terms ts = distinct (map term_key ts)"

definition nonempty_terms :: "Term list \<Rightarrow> bool" where
  "nonempty_terms ts = list_all (\<lambda>t. factors t \<noteq> []) ts"

definition wf_expr :: "IntermediateExpr \<Rightarrow> bool" where
  "wf_expr x = (intercept_invariant x \<and> unique_terms (terms x) \<and> nonempty_terms (terms x))"

fun is_CharltonError :: "error \<Rightarrow> bool" where
  "is_CharltonError (CharltonError msg org) = True"
| "is_CharltonError e = False"

text \<open>
  A rule behaves: it fails with a \<^verbatim>\<open>CharltonError\<close> only, and the
  \<^verbatim>\<open>IntermediateExpr\<close> it returns is well formed.
\<close>

definition ok_expr :: "error + IntermediateExpr \<Rightarrow> bool" where
  "ok_expr m = (case m of Inl e \<Rightarrow> is_CharltonError e | Inr x \<Rightarrow> wf_expr x)"

definition ok_result :: "bool \<Rightarrow> error + result \<Rightarrow> bool" where
  "ok_result require_evalexpr m =
     (case m of
        Inl e \<Rightarrow> is_CharltonError e
      | Inr (Expr x) \<Rightarrow> wf_expr x
      | Inr (Desc d) \<Rightarrow> \<not> require_evalexpr)"

text \<open>
  The list \<^verbatim>\<open>_interaction\<close> builds before it is made unique: for every left term,
  in order, its concatenation with every right term, in order.
\<close>

definition interaction_terms :: "Term list \<Rightarrow> Term list \<Rightarrow> Term list" where
  "interaction_terms ls rs =
     concat (map (\<lambda>l_term. map (\<lambda>r_term. Term_init (factors l_term @ factors r_term)) rs) ls)"

text \<open>
  The power expansion in the words of the specification: the growing product starts
  as the term list and is interacted with the term list once per round, so that
  \<open>power_product ts i\<close> holds the interactions of order \<open>i + 1\<close>; the result collects
  the term list and the products of the orders 2 to \<open>k\<close>.
\<close>

fun power_product :: "Term list \<Rightarrow> nat \<Rightarrow> Term list" where
  "power_product ts 0 = ts"
| "power_product ts (Suc i) = to_unique_tuple Term_eq (interaction_terms ts (power_product ts i))"

definition power_terms :: "Term list \<Rightarrow> nat \<Rightarrow> Term list" where
  "power_terms ts k = to_unique_tuple Term_eq (ts @ concat (map (power_product ts) [1..<k]))"

section \<open>Parse trees of the formulas of the tests\<close>

text \<open>
  Modelled from the spec: what the parser hands over for a formula, a leaf for a name
  or a number and a node for an operator; parentheses leave no node.
\<close>

definition leaf :: "string \<Rightarrow> string \<Rightarrow> Origin \<Rightarrow> ParseNode" where
  "leaf kind txt org = ParseNode kind (Token kind org txt) [] org"

definition binary :: "string \<Rightarrow> Origin \<Rightarrow> ParseNode \<Rightarrow> ParseNode \<Rightarrow> ParseNode" where
  "binary op org l r =
     ParseNode op (Token op org []) [l, r]
       (Origin (origin_code org) (origin_start (origin l)) (origin_end (origin r)))"

definition unary :: "string \<Rightarrow> Origin \<Rightarrow> ParseNode \<Rightarrow> ParseNode" where
  "unary op org a =
     ParseNode op (Token op org []) [a]
       (Origin (origin_code org) (origin_start org) (origin_end (origin a)))"

definition var :: "string \<Rightarrow> string \<Rightarrow> nat \<Rightarrow> ParseNode" where
  "var src v at = leaf ''PYTHON_EXPR'' v (Origin src at (at + length v))"

definition op_at :: "string \<Rightarrow> string \<Rightarrow> nat \<Rightarrow> ParseNode \<Rightarrow> ParseNode \<Rightarrow> ParseNode" where
  "op_at src op at l r = binary op (Origin src at (at + length op)) l r"

definition formula_1_plus_0 :: ParseNode where
  "formula_1_plus_0 =
     op_at ''1 + 0'' ''+'' 2
       (leaf ''ONE'' ''1'' (Origin ''1 + 0'' 0 1)) (leaf ''ZERO'' ''0'' (Origin ''1 + 0'' 4 5))"

definition formula_0_plus_1 :: ParseNode where
  "formula_0_plus_1 =
     op_at ''0 + 1'' ''+'' 2
       (leaf ''ZERO'' ''0'' (Origin ''0 + 1'' 0 1)) (leaf ''ONE'' ''1'' (Origin ''0 + 1'' 4 5))"

definition formula_a_plus_0 :: ParseNode where
  "formula_a_plus_0 =
     op_at ''a + 0'' ''+'' 2 (var ''a + 0'' ''a'' 0) (leaf ''ZERO'' ''0'' (Origin ''a + 0'' 4 5))"

definition formula_y_a_b :: ParseNode where
  "formula_y_a_b =
     op_at ''y ~ a + b'' ''~'' 2 (var ''y ~ a + b'' ''y'' 0)
       (op_at ''y ~ a + b'' ''+'' 6 (var ''y ~ a + b'' ''a'' 4) (var ''y ~ a + b'' ''b'' 8))"

definition formula_tilde_a :: ParseNode where
  "formula_tilde_a = unary ''~'' (Origin ''~ a'' 0 1) (var ''~ a'' ''a'' 2)"

definition formula_ab_div_c :: ParseNode where
  "formula_ab_div_c =
     op_at ''(a + b)/c'' ''/'' 7
       (op_at ''(a + b)/c'' ''+'' 3 (var ''(a + b)/c'' ''a'' 1) (var ''(a + b)/c'' ''b'' 5))
       (var ''(a + b)/c'' ''c'' 8)"

definition formula_a_div_1 :: ParseNode where
  "formula_a_div_1 =
     op_at ''a/1'' ''/'' 1 (var ''a/1'' ''a'' 0) (leaf ''ONE'' ''1'' (Origin ''a/1'' 2 3))"

definition formula_abcd_power_2 :: ParseNode where
  "formula_abcd_power_2 =
     op_at ''(a+b+c+d)**2'' ''**'' 9
       (op_at ''(a+b+c+d)**2'' ''+'' 6
          (op_at ''(a+b+c+d)**2'' ''+'' 4
             (op_at ''(a+b+c+d)**2'' ''+'' 2
                (var ''(a+b+c+d)**2'' ''a'' 1) (var ''(a+b+c+d)**2'' ''b'' 3))
             (var ''(a+b+c+d)**2'' ''c'' 5))
          (var ''(a+b+c+d)**2'' ''d'' 7))
       (leaf ''NUMBER'' ''2'' (Origin ''(a+b+c+d)**2'' 11 12))"

definition formula_a_power_2 :: ParseNode where
  "formula_a_power_2 =
     op_at ''a ** 2'' ''**'' 2 (var ''a ** 2'' ''a'' 0)
       (leaf ''NUMBER'' ''2'' (Origin ''a ** 2'' 5 6))"

definition formula_ab_minus_ab :: ParseNode where
  "formula_ab_minus_ab =
     op_at ''a:b - a:b'' ''-'' 4
       (op_at ''a:b - a:b'' '':'' 1 (var ''a:b - a:b'' ''a'' 0) (var ''a:b - a:b'' ''b'' 2))
       (op_at ''a:b - a:b'' '':'' 7 (var ''a:b - a:b'' ''a'' 6) (var ''a:b - a:b'' ''b'' 8))"

definition formula_ab_minus_ba :: ParseNode where
  "formula_ab_minus_ba =
     op_at ''a:b - b:a'' ''-'' 4
       (op_at ''a:b - b:a'' '':'' 1 (var ''a:b - b:a'' ''a'' 0) (var ''a:b - b:a'' ''b'' 2))
       (op_at ''a:b - b:a'' '':'' 7 (var ''a:b - b:a'' ''b'' 6) (var ''a:b - b:a'' ''a'' 8))"

definition formula_a_interact_1 :: ParseNode where
  "formula_a_interact_1 =
     op_at ''a:1'' '':'' 1 (var ''a:1'' ''a'' 0) (leaf ''ONE'' ''1'' (Origin ''a:1'' 2 3))"

definition formula_a_interact_b :: ParseNode where
  "formula_a_interact_b = op_at ''a:b'' '':'' 1 (var ''a:b'' ''a'' 0) (var ''a:b'' ''b'' 2)"

definition formula_a_minus_1 :: ParseNode where
  "formula_a_minus_1 =
     op_at ''(a - 1):b'' ''-'' 3 (var ''(a - 1):b'' ''a'' 1)
       (leaf ''ONE'' ''1'' (Origin ''(a - 1):b'' 5 6))"

definition formula_a_div_b_plus_1 :: ParseNode where
  "formula_a_div_b_plus_1 =
     op_at ''a/(b + 1)'' ''/'' 1 (var ''a/(b + 1)'' ''a'' 0)
       (op_at ''a/(b + 1)'' ''+'' 5 (var ''a/(b + 1)'' ''b'' 3)
          (leaf ''ONE'' ''1'' (Origin ''a/(b + 1)'' 7 8)))"

definition formula_1_prod_a :: ParseNode where
  "formula_1_prod_a =
     op_at ''1 * a'' ''*'' 2 (leaf ''ONE'' ''1'' (Origin ''1 * a'' 0 1)) (var ''1 * a'' ''a'' 4)"

definition formula_a_minus_1_prod_b :: ParseNode where
  "formula_a_minus_1_prod_b =
     op_at ''(a - 1)*b'' ''*'' 7
       (op_at ''(a - 1)*b'' ''-'' 3 (var ''(a - 1)*b'' ''a'' 1)
          (leaf ''ONE'' ''1'' (Origin ''(a - 1)*b'' 5 6)))
       (var ''(a - 1)*b'' ''b'' 8)"

definition formula_a_minus_1_interact_b :: ParseNode where
  "formula_a_minus_1_interact_b =
     op_at ''(a - 1):b'' '':'' 7 formula_a_minus_1 (var ''(a - 1):b'' ''b'' 8)"


section \<open>Facts about factors and terms\<close>

lemma factor_eq_key: "factor_eq f g = (factor_key f = factor_key g)"
  by (cases f; cases g) auto

lemma contains_key:
  assumes "\<And>a b. eq a b = (k a = k b)"
  shows "contains eq x ys = (k x \<in> k ` set ys)"
  by (auto simp: contains_def list_ex_iff assms)

lemma unique_loop_keys:
  assumes "\<And>a b. eq a b = (k a = k b)"
  shows "k ` set (unique_loop eq acc xs) = k ` (set acc \<union> set xs)"
proof (induction xs arbitrary: acc)
  case Nil
  show ?case by simp
next
  case (Cons x xs)
  show ?case
    by (auto simp: Cons contains_key [where k = k, OF assms])
qed

lemma unique_loop_distinct:
  assumes "\<And>a b. eq a b = (k a = k b)"
  shows "distinct (map k acc) \<Longrightarrow> distinct (map k (unique_loop eq acc xs))"
proof (induction xs arbitrary: acc)
  case Nil
  then show ?case by simp
next
  case (Cons x xs)
  show ?case
    using Cons.prems
    by (auto intro!: Cons.IH simp: contains_key [where k = k, OF assms])
qed

lemma unique_loop_fixed:
  assumes "\<And>a b. eq a b = (k a = k b)"
  shows "distinct (map k (acc @ xs)) \<Longrightarrow> unique_loop eq acc xs = acc @ xs"
proof (induction xs arbitrary: acc)
  case Nil
  then show ?case by simp
next
  case (Cons x xs)
  have "\<not> contains eq x acc"
    using Cons.prems by (auto simp: contains_key [where k = k, OF assms])
  moreover have "unique_loop eq (acc @ [x]) xs = (acc @ [x]) @ xs"
    using Cons.prems by (intro Cons.IH) simp
  ultimately show ?case by simp
qed

lemma unique_loop_subset: "set (unique_loop eq acc xs) \<subseteq> set acc \<union> set xs"
proof (induction xs arbitrary: acc)
  case Nil
  show ?case by simp
next
  case (Cons x xs)
  show ?case
    using Cons [of "if contains eq x acc then acc else acc @ [x]"]
    by (auto split: if_splits)
qed

lemma unique_loop_prefix: "\<exists>ys. unique_loop eq acc xs = acc @ ys"
proof (induction xs arbitrary: acc)
  case Nil
  show ?case by simp
next
  case (Cons x xs)
  show ?case
    using Cons [of "if contains eq x acc then acc else acc @ [x]"]
    by (auto split: if_splits)
qed

lemma to_unique_tuple_keys:
  assumes "\<And>a b. eq a b = (k a = k b)"
  shows "k ` set (to_unique_tuple eq xs) = k ` set xs"
  by (simp add: to_unique_tuple_def unique_loop_keys [where k = k, OF assms])

lemma to_unique_tuple_distinct:
  assumes "\<And>a b. eq a b = (k a = k b)"
  shows "distinct (map k (to_unique_tuple eq xs))"
  by (simp add: to_unique_tuple_def unique_loop_distinct [where k = k, OF assms])

lemma to_unique_tuple_fixed:
  assumes "\<And>a b. eq a b = (k a = k b)"
  shows "distinct (map k xs) \<Longrightarrow> to_unique_tuple eq xs = xs"
  using unique_loop_fixed [where k = k and acc = "[]", OF assms] by (simp add: to_unique_tuple_def)

lemma to_unique_tuple_subset: "set (to_unique_tuple eq xs) \<subseteq> set xs"
  using unique_loop_subset [of eq "[]" xs] by (simp add: to_unique_tuple_def)

lemma to_unique_tuple_Nil [simp]: "to_unique_tuple eq [] = []"
  by (simp add: to_unique_tuple_def)

lemma to_unique_tuple_Cons: "\<exists>ys. to_unique_tuple eq (x # xs) = x # ys"
  using unique_loop_prefix [of eq "[x]" xs] by (simp add: to_unique_tuple_def contains_def)

lemma to_unique_tuple_eq_Nil [simp]: "(to_unique_tuple eq xs = []) = (xs = [])"
  using to_unique_tuple_Cons [of eq] by (cases xs) (auto, metis list.distinct(1))

lemma Term_eq_key: "Term_eq s t = (term_key s = term_key t)"
  by (auto simp: Term_eq_def term_key_def)

lemma frozenset_to_unique_tuple: "frozenset (to_unique_tuple factor_eq fs) = frozenset fs"
  unfolding frozenset_def by (rule to_unique_tuple_keys) (rule factor_eq_key)

lemma term_key_Term_init [simp]: "term_key (Term_init fs) = frozenset fs"
  by (simp add: term_key_def Term_init_def frozenset_to_unique_tuple)

section \<open>Facts about intermediate results\<close>

lemma unique_fixed: "unique_terms ts \<Longrightarrow> to_unique_tuple Term_eq ts = ts"
  unfolding unique_terms_def by (rule to_unique_tuple_fixed) (rule Term_eq_key)

lemma unique_to_unique_tuple: "unique_terms (to_unique_tuple Term_eq ts)"
  unfolding unique_terms_def by (rule to_unique_tuple_distinct) (rule Term_eq_key)

lemma nonempty_to_unique_tuple:
  "nonempty_terms ts \<Longrightarrow> nonempty_terms (to_unique_tuple Term_eq ts)"
  using to_unique_tuple_subset [of Term_eq ts]
  by (auto simp: nonempty_terms_def list_all_iff)

lemma nonempty_append [simp]:
  "nonempty_terms (xs @ ys) = (nonempty_terms xs \<and> nonempty_terms ys)"
  by (simp add: nonempty_terms_def)

lemma nonempty_Nil [simp]: "nonempty_terms []"
  by (simp add: nonempty_terms_def)

lemma nonempty_filter: "nonempty_terms ts \<Longrightarrow> nonempty_terms (filter P ts)"
  by (simp add: nonempty_terms_def list_all_iff)

lemma factors_Term_init [simp]: "factors (Term_init fs) = to_unique_tuple factor_eq fs"
  by (simp add: Term_init_def)

lemma IntermediateExpr_init_Inr:
  "\<not> (i \<and> org = None) \<Longrightarrow> \<not> (i \<and> r) \<Longrightarrow>
   IntermediateExpr_init i org r ts =
     Inr \<lparr>intercept = i, intercept_origin = org, intercept_removed = r,
          terms = to_unique_tuple Term_eq ts\<rparr>"
  by (auto simp: IntermediateExpr_init_def)

lemma init_ok:
  "\<not> (i \<and> org = None) \<Longrightarrow> \<not> (i \<and> r) \<Longrightarrow> nonempty_terms ts \<Longrightarrow>
   ok_expr (IntermediateExpr_init i org r ts)"
  by (simp add: IntermediateExpr_init_Inr ok_expr_def wf_expr_def intercept_invariant_def
      unique_to_unique_tuple nonempty_to_unique_tuple)

lemma init_plain:
  "IntermediateExpr_init False None r ts =
     Inr \<lparr>intercept = False, intercept_origin = None, intercept_removed = r,
          terms = to_unique_tuple Term_eq ts\<rparr>"
  by (simp add: IntermediateExpr_init_def)

lemma check_interactable_simps:
  "check_interactable x =
     (if intercept x
      then Inl (CharltonError ''intercept term cannot interact with anything else''
                  (intercept_origin x))
      else Inr ())"
  by (simp add: check_interactable_def)

lemma interaction_Inr:
  "\<not> intercept l \<Longrightarrow> \<not> intercept r \<Longrightarrow>
   interaction l r =
     Inr \<lparr>intercept = False, intercept_origin = None, intercept_removed = False,
          terms = to_unique_tuple Term_eq (interaction_terms (terms l) (terms r))\<rparr>"
  by (simp add: interaction_def check_interactable_def init_plain interaction_terms_def)

lemma interaction_Inl_left:
  "intercept l \<Longrightarrow>
   interaction l r =
     Inl (CharltonError ''intercept term cannot interact with anything else''
            (intercept_origin l))"
  by (simp add: interaction_def check_interactable_def)

lemma interaction_Inl_right:
  "\<not> intercept l \<Longrightarrow> intercept r \<Longrightarrow>
   interaction l r =
     Inl (CharltonError ''intercept term cannot interact with anything else''
            (intercept_origin r))"
  by (simp add: interaction_def check_interactable_def)

lemma nonempty_interaction_terms:
  "nonempty_terms ls \<or> nonempty_terms rs \<Longrightarrow> nonempty_terms (interaction_terms ls rs)"
  by (auto simp: nonempty_terms_def list_all_iff interaction_terms_def)

lemma interaction_ok:
  assumes "nonempty_terms (terms l) \<or> nonempty_terms (terms r)"
  shows "ok_expr (interaction l r)"
proof (cases "intercept l")
  case True
  then show ?thesis by (simp add: interaction_Inl_left ok_expr_def)
next
  case False
  show ?thesis
  proof (cases "intercept r")
    case True
    with False show ?thesis by (simp add: interaction_Inl_right ok_expr_def)
  next
    case r: False
    show ?thesis
      using nonempty_interaction_terms [OF assms]
      by (simp add: interaction_Inr False r ok_expr_def wf_expr_def intercept_invariant_def
          unique_to_unique_tuple nonempty_to_unique_tuple)
  qed
qed

lemma power_loop_ok:
  "\<not> intercept l \<Longrightarrow> nonempty_terms (terms l) \<Longrightarrow> \<not> intercept big \<Longrightarrow> nonempty_terms acc \<Longrightarrow>
   \<exists>ts. power_loop l n big acc = Inr ts \<and> nonempty_terms ts"
proof (induction n arbitrary: big acc)
  case 0
  then show ?case by simp
next
  case (Suc n)
  let ?b = "\<lparr>intercept = False, intercept_origin = None, intercept_removed = False,
          terms = to_unique_tuple Term_eq (interaction_terms (terms l) (terms big))\<rparr>"
  have i: "interaction l big = Inr ?b"
    using Suc.prems by (simp add: interaction_Inr)
  have n: "nonempty_terms (terms ?b)"
    using Suc.prems by (simp add: nonempty_to_unique_tuple nonempty_interaction_terms)
  show ?case
    using Suc.IH [of ?b "acc @ terms ?b"] Suc.prems n by (simp add: i)
qed

lemma evaluators_arity:
  "evaluators (ty, n) = Some r \<Longrightarrow>
   (case r of
      Rule_any_tilde \<Rightarrow> n = 1 \<or> n = 2
    | Rule_binary_plus \<Rightarrow> n = 2
    | Rule_binary_minus \<Rightarrow> n = 2
    | Rule_binary_prod \<Rightarrow> n = 2
    | Rule_binary_div \<Rightarrow> n = 2
    | Rule_binary_interact \<Rightarrow> n = 2
    | Rule_binary_power \<Rightarrow> n = 2
    | Rule_unary_plus \<Rightarrow> n = 1
    | Rule_unary_minus \<Rightarrow> n = 1
    | Rule_zero \<Rightarrow> n = 0
    | Rule_one \<Rightarrow> n = 0
    | Rule_number \<Rightarrow> n = 0
    | Rule_python_expr \<Rightarrow> n = 0)"
  by (auto simp: evaluators_def add_op_def split: if_splits)

lemma evaluators_lookup:
  "evaluators (''~'', 2) = Some Rule_any_tilde"
  "evaluators (''~'', Suc 0) = Some Rule_any_tilde"
  "evaluators (''+'', 2) = Some Rule_binary_plus"
  "evaluators (''-'', 2) = Some Rule_binary_minus"
  "evaluators (''*'', 2) = Some Rule_binary_prod"
  "evaluators (''/'', 2) = Some Rule_binary_div"
  "evaluators ('':'', 2) = Some Rule_binary_interact"
  "evaluators (''**'', 2) = Some Rule_binary_power"
  by (simp_all add: evaluators_def add_op_def)

lemma length_2E: "length xs = 2 \<Longrightarrow> (\<And>a b. xs = [a, b] \<Longrightarrow> P) \<Longrightarrow> P"
  by (cases xs; cases "tl xs") auto

lemma length_1E: "length xs = Suc 0 \<Longrightarrow> (\<And>a. xs = [a] \<Longrightarrow> P) \<Longrightarrow> P"
  by (cases xs) auto

lemma ok_expr_Inl [simp]: "ok_expr (Inl e) = is_CharltonError e"
  by (simp add: ok_expr_def)

lemma ok_expr_Inr [simp]: "ok_expr (Inr x) = wf_expr x"
  by (simp add: ok_expr_def)

lemma arg_simps [simp]:
  "arg (ParseNode ty tok (a # as) org) 0 = Inr a"
  "arg (ParseNode ty tok (a # b # as) org) (Suc 0) = Inr b"
  by (simp_all add: arg_def)

lemma wf_exprD:
  "wf_expr x \<Longrightarrow> \<not> (intercept x \<and> intercept_origin x = None)"
  "wf_expr x \<Longrightarrow> \<not> (intercept x \<and> intercept_removed x)"
  "wf_expr x \<Longrightarrow> nonempty_terms (terms x)"
  "wf_expr x \<Longrightarrow> unique_terms (terms x)"
  by (auto simp: wf_expr_def intercept_invariant_def)

lemma plus_ok:
  assumes "args tree = [a0, a1]" "ok_expr (ev a0)" "ok_expr (ev a1)"
  shows "ok_expr (eval_binary_plus ev tree)"
proof (cases "ev a0")
  case (Inl e)
  then show ?thesis using assms by (simp add: eval_binary_plus_def arg_def)
next
  case l: (Inr left_expr)
  then have wl: "wf_expr left_expr" using assms by simp
  show ?thesis
  proof (cases "ev a1")
    case (Inl e)
    then show ?thesis
      using assms l wl
      by (auto simp: eval_binary_plus_def arg_def wf_expr_def intercept_invariant_def
          intro!: init_ok)
  next
    case (Inr right_expr)
    then have wr: "wf_expr right_expr" using assms by simp
    show ?thesis
      using assms l Inr wl wr
      by (auto simp: eval_binary_plus_def arg_def wf_expr_def intercept_invariant_def
          intro!: init_ok)
  qed
qed

lemma minus_ok:
  assumes "args tree = [a0, a1]" "ok_expr (ev a0)" "ok_expr (ev a1)"
  shows "ok_expr (eval_binary_minus ev tree)"
proof (cases "ev a0")
  case (Inl e)
  then show ?thesis using assms by (simp add: eval_binary_minus_def arg_def)
next
  case l: (Inr left_expr)
  then have wl: "wf_expr left_expr" using assms by simp
  show ?thesis
  proof (cases "ev a1")
    case (Inl e)
    then show ?thesis
      using assms l wl
      by (auto simp: eval_binary_minus_def arg_def wf_expr_def intercept_invariant_def
          intro!: init_ok)
  next
    case (Inr right_expr)
    then have wr: "wf_expr right_expr" using assms by simp
    show ?thesis
      using assms l Inr wl wr
      by (auto simp: eval_binary_minus_def arg_def wf_expr_def intercept_invariant_def
          nonempty_filter Let_def intro!: init_ok)
  qed
qed

lemma eval_args_2:
  "eval_args ev [a0, a1] =
     (case ev a0 of Inl e \<Rightarrow> Inl e
      | Inr x \<Rightarrow> (case ev a1 of Inl e \<Rightarrow> Inl e | Inr y \<Rightarrow> Inr [x, y]))"
  by (simp split: sum.splits)

lemma eval_args_1:
  "eval_args ev [a0] = (case ev a0 of Inl e \<Rightarrow> Inl e | Inr x \<Rightarrow> Inr [x])"
  by (simp split: sum.splits)

lemma prod_ok:
  assumes "args tree = [a0, a1]" "ok_expr (ev a0)" "ok_expr (ev a1)"
  shows "ok_expr (eval_binary_prod ev tree)"
proof (cases "ev a0")
  case (Inl e)
  then show ?thesis using assms by (simp add: eval_binary_prod_def eval_args_2)
next
  case l: (Inr e0)
  then have wl: "wf_expr e0" using assms by simp
  show ?thesis
  proof (cases "ev a1")
    case (Inl e)
    then show ?thesis
      using assms l by (simp add: eval_binary_prod_def eval_args_2)
  next
    case (Inr e1)
    then have wr: "wf_expr e1" using assms by simp
    have "ok_expr (interaction e0 e1)"
      using wl by (simp add: interaction_ok wf_exprD)
    then show ?thesis
      using assms l Inr wl wr
      by (cases "interaction e0 e1")
        (simp_all add: eval_binary_prod_def eval_args_2 init_ok wf_exprD)
  qed
qed

lemma interact_ok:
  assumes "args tree = [a0, a1]" "ok_expr (ev a0)" "ok_expr (ev a1)"
  shows "ok_expr (eval_binary_interact ev tree)"
proof (cases "ev a0")
  case (Inl e)
  then show ?thesis using assms by (simp add: eval_binary_interact_def eval_args_2)
next
  case l: (Inr e0)
  then have wl: "wf_expr e0" using assms by simp
  show ?thesis
  proof (cases "ev a1")
    case (Inl e)
    then show ?thesis
      using assms l by (simp add: eval_binary_interact_def eval_args_2)
  next
    case (Inr e1)
    have "ok_expr (interaction e0 e1)"
      using wl by (simp add: interaction_ok wf_exprD)
    then show ?thesis
      using assms l Inr by (simp add: eval_binary_interact_def eval_args_2)
  qed
qed

lemma div_ok:
  assumes "args tree = [a0, a1]" "ok_expr (ev a0)" "ok_expr (ev a1)"
  shows "ok_expr (eval_binary_div ev tree)"
proof (cases "ev a0")
  case (Inl e)
  then show ?thesis using assms by (simp add: eval_binary_div_def arg_def)
next
  case l: (Inr left_expr)
  then have wl: "wf_expr left_expr" using assms by simp
  show ?thesis
  proof (cases "ev a1")
    case (Inl e)
    then show ?thesis
      using assms l by (simp add: eval_binary_div_def arg_def)
  next
    case (Inr right_expr)
    then have wr: "wf_expr right_expr" using assms by simp
    let ?c = "\<lparr>intercept = False, intercept_origin = None, intercept_removed = False,
      terms = to_unique_tuple Term_eq [Term_init (concat (map factors (terms left_expr)))]\<rparr>"
    have "ok_expr (interaction ?c right_expr)"
      using wr by (simp add: interaction_ok wf_exprD)
    then show ?thesis
      using assms l Inr wl wr
      by (cases "interaction ?c right_expr")
        (simp_all add: eval_binary_div_def arg_def check_interactable_simps init_plain
          wf_expr_def intercept_invariant_def unique_to_unique_tuple
          nonempty_to_unique_tuple Let_def)
  qed
qed

lemma power_ok:
  assumes "args tree = [a0, a1]" "ok_expr (ev a0)"
  shows "ok_expr (eval_binary_power ev tree)"
proof (cases "ev a0")
  case (Inl e)
  then show ?thesis using assms by (simp add: eval_binary_power_def arg_def)
next
  case l: (Inr left_expr)
  then have wl: "wf_expr left_expr" using assms by simp
  show ?thesis
  proof (cases "intercept left_expr")
    case True
    then show ?thesis
      using assms l by (simp add: eval_binary_power_def arg_def check_interactable_simps)
  next
    case False
    have "ok_expr (case power_loop left_expr n left_expr (terms left_expr) of
                     Inl e \<Rightarrow> Inl e
                   | Inr all_terms \<Rightarrow> IntermediateExpr_init False None False all_terms)" for n
    proof -
      obtain ts where "power_loop left_expr n left_expr (terms left_expr) = Inr ts"
        and "nonempty_terms ts"
        using power_loop_ok [of left_expr left_expr "terms left_expr" n] False wl
        by (auto simp: wf_exprD)
      then show ?thesis by (simp add: init_ok)
    qed
    then show ?thesis
      using assms l False
      by (auto simp: eval_binary_power_def arg_def check_interactable_simps Let_def init_ok
          split: option.splits)
  qed
qed

lemma unary_plus_ok:
  assumes "args tree = [a0]" "ok_expr (ev a0)"
  shows "ok_expr (eval_unary_plus ev tree)"
  using assms by (simp add: eval_unary_plus_def arg_def)

lemma unary_minus_ok:
  assumes "args tree = [a0]"
  shows "ok_expr (eval_unary_minus tree)"
  using assms
  by (auto simp: eval_unary_minus_def arg_def intro!: init_ok)

lemma leaf_rules_ok:
  "ok_expr (eval_zero tree)"
  "ok_expr (eval_one tree)"
  "ok_expr (eval_number tree)"
  "ok_expr (eval_python_expr env tree)"
  by (auto simp: eval_zero_def eval_one_def eval_number_def
      eval_python_expr_def nonempty_terms_def Let_def intro!: init_ok)

lemma tilde_ok:
  assumes "args tree = [a0, a1] \<or> args tree = [a1]"
    and "\<And>t. t \<in> set (args tree) \<Longrightarrow> ok_expr (ev t)"
  shows "case eval_any_tilde ev tree of Inl e \<Rightarrow> is_CharltonError e | Inr d \<Rightarrow> True"
  using assms(1)
proof
  assume a: "args tree = [a0, a1]"
  then have "ok_expr (ev a0)" "ok_expr (ev a1)" using assms(2) by simp_all
  then show ?thesis
    by (cases "ev a0"; cases "ev a1") (simp_all add: eval_any_tilde_def a)
next
  assume a: "args tree = [a1]"
  then have "ok_expr (ev a1)" using assms(2) by simp
  then show ?thesis
    by (cases "ev a1") (simp_all add: eval_any_tilde_def a init_plain)
qed

lemma run_rule_ok:
  assumes d: "evaluators (node_type tree, length (args tree)) = Some r"
    and ih: "\<And>t. t \<in> set (args tree) \<Longrightarrow> ok_expr (ev t)"
  shows "ok_result False (run_rule r ev env tree)"
proof -
  note n = evaluators_arity [OF d]
  have e: "ok_expr m \<Longrightarrow> ok_result False (map_sum id Expr m)" for m
    by (cases m) (simp_all add: ok_result_def)
  have two: "length (args tree) = 2 \<Longrightarrow>
      (\<And>a0 a1. args tree = [a0, a1] \<Longrightarrow> ok_expr (ev a0) \<Longrightarrow> ok_expr (ev a1) \<Longrightarrow> P) \<Longrightarrow> P" for P
    using ih by (elim length_2E) simp
  have one: "length (args tree) = Suc 0 \<Longrightarrow>
      (\<And>a0. args tree = [a0] \<Longrightarrow> ok_expr (ev a0) \<Longrightarrow> P) \<Longrightarrow> P" for P
    using ih by (elim length_1E) simp
  show ?thesis
  proof (cases r)
    case Rule_any_tilde
    then have "length (args tree) = 1 \<or> length (args tree) = 2" using n by simp
    then have "\<exists>a0 a1. args tree = [a0, a1] \<or> args tree = [a1]"
      by (auto elim: length_2E length_1E)
    then obtain a0 a1 where "args tree = [a0, a1] \<or> args tree = [a1]" by blast
    from tilde_ok [of tree a0 a1 ev, OF this ih] show ?thesis
      by (cases "eval_any_tilde ev tree") (simp_all add: Rule_any_tilde ok_result_def)
  next
    case Rule_binary_plus
    then show ?thesis using n by (auto elim!: two intro!: e plus_ok)
  next
    case Rule_binary_minus
    then show ?thesis using n by (auto elim!: two intro!: e minus_ok)
  next
    case Rule_binary_prod
    then show ?thesis using n by (auto elim!: two intro!: e prod_ok)
  next
    case Rule_binary_div
    then show ?thesis using n by (auto elim!: two intro!: e div_ok)
  next
    case Rule_binary_interact
    then show ?thesis using n by (auto elim!: two intro!: e interact_ok)
  next
    case Rule_binary_power
    then show ?thesis using n by (auto elim!: two intro!: e power_ok)
  next
    case Rule_unary_plus
    then show ?thesis using n by (auto elim!: one intro!: e unary_plus_ok)
  next
    case Rule_unary_minus
    then show ?thesis using n by (auto elim!: one intro!: e intro: unary_minus_ok)
  next
    case Rule_zero
    then show ?thesis by (simp add: e leaf_rules_ok)
  next
    case Rule_one
    then show ?thesis by (simp add: e leaf_rules_ok)
  next
    case Rule_number
    then show ?thesis by (simp add: e leaf_rules_ok)
  next
    case Rule_python_expr
    then show ?thesis by (simp add: e leaf_rules_ok)
  qed
qed

lemma expr_of_ok: "ok_result True m \<Longrightarrow> ok_expr (expr_of m)"
  by (cases m rule: expr_of.cases) (simp_all add: ok_result_def)

lemma eval_ok: "ok_result require_evalexpr (eval env tree require_evalexpr)"
proof (induction env tree require_evalexpr rule: eval.induct)
  case (1 env tree req)
  show ?case
  proof (cases "evaluators (node_type tree, length (args tree))")
    case None
    then show ?thesis by (simp add: eval.simps [of env tree] ok_result_def)
  next
    case (Some r)
    have "ok_expr (expr_of (eval env t True))" if "t \<in> set (args tree)" for t
      using "1.IH" [OF Some that] by (rule expr_of_ok)
    then have "ok_result False (run_rule r (\<lambda>t. expr_of (eval env t True)) env tree)"
      by (intro run_rule_ok [OF Some]) simp
    then show ?thesis
      by (auto simp: eval.simps [of env tree] Some ok_result_def split: sum.splits result.splits)
  qed
qed

lemma eval_True_not_Desc: "eval env tree True \<noteq> Inr (Desc d)"
  using eval_ok [of True env tree] by (auto simp: ok_result_def)

lemma eval_Expr_wf: "eval env tree req = Inr (Expr x) \<Longrightarrow> wf_expr x"
  using eval_ok [of req env tree] by (simp add: ok_result_def)

lemma eval_Inl_CharltonError: "eval env tree req = Inl e \<Longrightarrow> is_CharltonError e"
  using eval_ok [of req env tree] by (simp add: ok_result_def)

lemma unique_loop_append:
  "unique_loop eq acc (xs @ ys) = unique_loop eq (unique_loop eq acc xs) ys"
  by (induction xs arbitrary: acc) simp_all

lemma unique_loop_absorb:
  assumes "\<And>a b. eq a b = (k a = k b)"
  shows "k ` set B \<subseteq> k ` set C \<Longrightarrow>
    \<exists>zs. unique_loop eq B ys = B @ zs \<and> unique_loop eq C zs = unique_loop eq C ys"
proof (induction ys arbitrary: B C)
  case Nil
  then show ?case by simp
next
  case (Cons y ys)
  note ck = contains_key [where k = k, OF assms]
  show ?case
  proof (cases "k y \<in> k ` set B")
    case True
    then have "k y \<in> k ` set C" using Cons.prems by blast
    with True Cons.IH [OF Cons.prems] show ?thesis by (simp add: ck)
  next
    case False
    let ?C = "if contains eq y C then C else C @ [y]"
    have "k ` set (B @ [y]) \<subseteq> k ` set ?C"
      using Cons.prems by (auto simp: ck)
    from Cons.IH [OF this] obtain zs where
      zs: "unique_loop eq (B @ [y]) ys = (B @ [y]) @ zs"
        "unique_loop eq ?C zs = unique_loop eq ?C ys"
      by blast
    have "unique_loop eq B (y # ys) = B @ (y # zs)"
      using False zs(1) by (simp add: ck)
    moreover have "unique_loop eq C (y # zs) = unique_loop eq C (y # ys)"
      using zs(2) by simp
    ultimately show ?thesis by blast
  qed
qed

lemma to_unique_tuple_append_right:
  assumes "\<And>a b. eq a b = (k a = k b)"
  shows "to_unique_tuple eq (xs @ to_unique_tuple eq ys) = to_unique_tuple eq (xs @ ys)"
proof -
  obtain zs where "unique_loop eq [] ys = [] @ zs"
    and "unique_loop eq (unique_loop eq [] xs) zs = unique_loop eq (unique_loop eq [] xs) ys"
    using unique_loop_absorb [where k = k and B = "[]" and C = "unique_loop eq [] xs", OF assms]
    by auto
  then show ?thesis by (simp add: to_unique_tuple_def unique_loop_append)
qed

lemma to_unique_tuple_idem:
  assumes "\<And>a b. eq a b = (k a = k b)"
  shows "to_unique_tuple eq (to_unique_tuple eq xs) = to_unique_tuple eq xs"
  using to_unique_tuple_append_right [where k = k and xs = "[]", OF assms] by simp

lemma to_unique_tuple_append_left:
  assumes "\<And>a b. eq a b = (k a = k b)"
  shows "to_unique_tuple eq (to_unique_tuple eq xs @ ys) = to_unique_tuple eq (xs @ ys)"
  using to_unique_tuple_idem [where k = k, OF assms, of xs]
  by (simp add: to_unique_tuple_def unique_loop_append)

lemmas terms_append_right = to_unique_tuple_append_right [where k = term_key, OF Term_eq_key]
lemmas terms_append_left = to_unique_tuple_append_left [where k = term_key, OF Term_eq_key]
lemmas terms_idem = to_unique_tuple_idem [where k = term_key, OF Term_eq_key]

lemma to_unique_tuple_single [simp]: "to_unique_tuple eq [x] = [x]"
  by (simp add: to_unique_tuple_def contains_def)

lemma eval_Expr_rule:
  assumes "evaluators (node_type tree, length (args tree)) = Some r"
    and "run_rule r (\<lambda>t. expr_of (eval env t True)) env tree = map_sum id Expr m"
  shows "eval env tree req = map_sum id Expr m"
  using assms by (cases m) (simp_all add: eval.simps [of env tree])

lemma eval_binary:
  assumes "args tree = [l, r]"
  shows
    "node_type tree = ''+'' \<Longrightarrow>
       eval env tree req = map_sum id Expr (eval_binary_plus (\<lambda>t. expr_of (eval env t True)) tree)"
    "node_type tree = ''-'' \<Longrightarrow>
       eval env tree req = map_sum id Expr (eval_binary_minus (\<lambda>t. expr_of (eval env t True)) tree)"
    "node_type tree = ''*'' \<Longrightarrow>
       eval env tree req = map_sum id Expr (eval_binary_prod (\<lambda>t. expr_of (eval env t True)) tree)"
    "node_type tree = ''/'' \<Longrightarrow>
       eval env tree req = map_sum id Expr (eval_binary_div (\<lambda>t. expr_of (eval env t True)) tree)"
    "node_type tree = '':'' \<Longrightarrow>
       eval env tree req = map_sum id Expr (eval_binary_interact (\<lambda>t. expr_of (eval env t True)) tree)"
    "node_type tree = ''**'' \<Longrightarrow>
       eval env tree req = map_sum id Expr (eval_binary_power (\<lambda>t. expr_of (eval env t True)) tree)"
proof -
  have len: "length (args tree) = 2" using assms by simp
  show "node_type tree = ''+'' \<Longrightarrow>
       eval env tree req = map_sum id Expr (eval_binary_plus (\<lambda>t. expr_of (eval env t True)) tree)"
    by (rule eval_Expr_rule [where r = Rule_binary_plus]) (simp_all add: len evaluators_lookup)
  show "node_type tree = ''-'' \<Longrightarrow>
       eval env tree req = map_sum id Expr (eval_binary_minus (\<lambda>t. expr_of (eval env t True)) tree)"
    by (rule eval_Expr_rule [where r = Rule_binary_minus]) (simp_all add: len evaluators_lookup)
  show "node_type tree = ''*'' \<Longrightarrow>
       eval env tree req = map_sum id Expr (eval_binary_prod (\<lambda>t. expr_of (eval env t True)) tree)"
    by (rule eval_Expr_rule [where r = Rule_binary_prod]) (simp_all add: len evaluators_lookup)
  show "node_type tree = ''/'' \<Longrightarrow>
       eval env tree req = map_sum id Expr (eval_binary_div (\<lambda>t. expr_of (eval env t True)) tree)"
    by (rule eval_Expr_rule [where r = Rule_binary_div]) (simp_all add: len evaluators_lookup)
  show "node_type tree = '':'' \<Longrightarrow>
       eval env tree req = map_sum id Expr (eval_binary_interact (\<lambda>t. expr_of (eval env t True)) tree)"
    by (rule eval_Expr_rule [where r = Rule_binary_interact]) (simp_all add: len evaluators_lookup)
  show "node_type tree = ''**'' \<Longrightarrow>
       eval env tree req = map_sum id Expr (eval_binary_power (\<lambda>t. expr_of (eval env t True)) tree)"
    by (rule eval_Expr_rule [where r = Rule_binary_power]) (simp_all add: len evaluators_lookup)
qed

lemma arg_pair [simp]:
  "args tree = [l, r] \<Longrightarrow> arg tree 0 = Inr l"
  "args tree = [l, r] \<Longrightarrow> arg tree (Suc 0) = Inr r"
  by (simp_all add: arg_def)

lemma ex_1_plus_0:
  "eval env formula_1_plus_0 req =
     Inr (Expr \<lparr>intercept = False, intercept_origin = None, intercept_removed = True,
                terms = []\<rparr>)"
  by code_simp

lemma ex_0_plus_1:
  "eval env formula_0_plus_1 req =
     Inr (Expr \<lparr>intercept = True, intercept_origin = Some (OriginObj (Origin ''0 + 1'' 4 5)),
                intercept_removed = False, terms = []\<rparr>)"
  by code_simp

lemma frozenset_empty [simp]: "(frozenset fs = {}) = (fs = [])"
  by (simp add: frozenset_def)

lemma term_key_INTERCEPT [simp]: "term_key INTERCEPT = {}"
  by (simp add: term_key_def frozenset_def)

lemma unique_INTERCEPT_Cons:
  "unique_terms ts \<Longrightarrow> nonempty_terms ts \<Longrightarrow> unique_terms (INTERCEPT # ts)"
  by (auto simp: unique_terms_def nonempty_terms_def list_all_iff term_key_def frozenset_def)

lemma maybe_add_intercept_fixed:
  assumes "wf_expr x"
  shows "to_unique_tuple Term_eq (maybe_add_intercept doit (terms x)) =
           (if doit then INTERCEPT # terms x else terms x)"
  using assms
  by (simp add: maybe_add_intercept_def wf_expr_def unique_fixed unique_INTERCEPT_Cons)

lemma eval_tilde:
  assumes "node_type tree = ''~''" and "length (args tree) = 1 \<or> length (args tree) = 2"
  shows "eval env tree False =
           map_sum id Desc (eval_any_tilde (\<lambda>t. expr_of (eval env t True)) tree)"
proof -
  have "evaluators (node_type tree, length (args tree)) = Some Rule_any_tilde"
    using assms by (auto simp: evaluators_lookup)
  then show ?thesis
    by (cases "eval_any_tilde (\<lambda>t. expr_of (eval env t True)) tree")
      (simp_all add: eval.simps [of env tree])
qed

lemma ex_y_a_b:
  "from_formula formula_y_a_b env =
     Inr \<lparr>lhs_termlist = [Term [EvalFactor ''y'' env (Some (Origin ''y ~ a + b'' 0 1))]],
          rhs_termlist =
            [INTERCEPT,
             Term [EvalFactor ''a'' env (Some (Origin ''y ~ a + b'' 4 5))],
             Term [EvalFactor ''b'' env (Some (Origin ''y ~ a + b'' 8 9))]]\<rparr>"
  by code_simp

lemma unique_filter: "unique_terms ts \<Longrightarrow> unique_terms (filter P ts)"
  by (simp add: unique_terms_def distinct_map_filter)

lemma wf_intercept_origin: "wf_expr x \<Longrightarrow> intercept x \<Longrightarrow> intercept_origin x \<noteq> None"
  by (simp add: wf_expr_def intercept_invariant_def)

lemma wf_not_both: "wf_expr x \<Longrightarrow> intercept x \<Longrightarrow> \<not> intercept_removed x"
  by (auto simp: wf_expr_def intercept_invariant_def)

lemma ex_ab_minus_ab:
  "eval env formula_ab_minus_ab req =
     Inr (Expr \<lparr>intercept = False, intercept_origin = None, intercept_removed = False,
                terms = []\<rparr>)"
  by code_simp

lemma ex_ab_minus_ba:
  "eval env formula_ab_minus_ba req =
     Inr (Expr \<lparr>intercept = False, intercept_origin = None, intercept_removed = False,
                terms = []\<rparr>)"
  by code_simp

lemma ex_a_interact_1:
  "eval env formula_a_interact_1 req =
     Inl (CharltonError ''intercept term cannot interact with anything else''
            (Some (OriginObj (Origin ''a:1'' 2 3))))"
  by code_simp

lemma ex_a_interact_1_origin: "origin (args formula_a_interact_1 ! 1) = Origin ''a:1'' 2 3"
  by code_simp

lemma check_interactable_Inr: "(check_interactable x = Inr ()) = (\<not> intercept x)"
  by (simp add: check_interactable_def)

lemma interaction_flags:
  "interaction l r = Inr y \<Longrightarrow> \<not> intercept y \<and> \<not> intercept_removed y"
  by (cases "intercept l"; cases "intercept r")
    (auto simp: interaction_Inl_left interaction_Inl_right interaction_Inr)

lemma init_plain_flags:
  "IntermediateExpr_init False None False ts = Inr y \<Longrightarrow> \<not> intercept y \<and> \<not> intercept_removed y"
  by (auto simp: init_plain)

lemma map_sum_Expr_eq: "(map_sum id Expr m = Inr (Expr y)) = (m = Inr y)"
  by (cases m) auto

lemma interaction_ops_flags:
  assumes "node_type tree \<in> {'':'', ''*'', ''/'', ''**''}" and "length (args tree) = 2"
    and "eval env tree req = Inr (Expr y)"
  shows "\<not> intercept y \<and> \<not> intercept_removed y"
proof -
  obtain l r where a: "args tree = [l, r]"
    using assms(2) by (elim length_2E)
  let ?ev = "\<lambda>t. expr_of (eval env t True)"
  consider "node_type tree = '':''" | "node_type tree = ''*''" | "node_type tree = ''/''"
    | "node_type tree = ''**''"
    using assms(1) by blast
  then show ?thesis
  proof cases
    case 1
    then have "eval_binary_interact ?ev tree = Inr y"
      using assms(3) by (simp add: eval_binary(5) [OF a] map_sum_Expr_eq)
    then show ?thesis
      by (auto simp: eval_binary_interact_def a eval_args_2 split: sum.splits
          dest: interaction_flags)
  next
    case 2
    then have "eval_binary_prod ?ev tree = Inr y"
      using assms(3) by (simp add: eval_binary(3) [OF a] map_sum_Expr_eq)
    then show ?thesis
      by (auto simp: eval_binary_prod_def a eval_args_2 split: sum.splits
          dest: init_plain_flags)
  next
    case 3
    then have "eval_binary_div ?ev tree = Inr y"
      using assms(3) by (simp add: eval_binary(4) [OF a] map_sum_Expr_eq)
    then show ?thesis
      by (auto simp: eval_binary_div_def a Let_def split: sum.splits
          dest: init_plain_flags)
  next
    case 4
    then have "eval_binary_power ?ev tree = Inr y"
      using assms(3) by (simp add: eval_binary(6) [OF a] map_sum_Expr_eq)
    then show ?thesis
      by (auto simp: eval_binary_power_def a Let_def split: sum.splits if_splits
          dest: init_plain_flags)
  qed
qed

lemma ex_a_minus_1:
  "eval env formula_a_minus_1 True =
     Inr (Expr \<lparr>intercept = False, intercept_origin = None, intercept_removed = True,
                terms = [Term [EvalFactor ''a'' env (Some (Origin ''(a - 1):b'' 1 2))]]\<rparr>)"
  by code_simp

lemma ex_a_minus_1_interact_b:
  "eval env formula_a_minus_1_interact_b req =
     Inr (Expr \<lparr>intercept = False, intercept_origin = None, intercept_removed = False,
                terms = [Term [EvalFactor ''a'' env (Some (Origin ''(a - 1):b'' 1 2)),
                               EvalFactor ''b'' env (Some (Origin ''(a - 1):b'' 8 9))]]\<rparr>)"
  by code_simp

lemma interaction_terms_single:
  "interaction_terms [c] rs = map (\<lambda>r_term. Term_init (factors c @ factors r_term)) rs"
  by (simp add: interaction_terms_def)

lemma ex_ab_div_c:
  "eval env formula_ab_div_c req =
     Inr (Expr \<lparr>intercept = False, intercept_origin = None, intercept_removed = False,
                terms = [Term [EvalFactor ''a'' env (Some (Origin ''(a + b)/c'' 1 2))],
                         Term [EvalFactor ''b'' env (Some (Origin ''(a + b)/c'' 5 6))],
                         Term [EvalFactor ''a'' env (Some (Origin ''(a + b)/c'' 1 2)),
                               EvalFactor ''b'' env (Some (Origin ''(a + b)/c'' 5 6)),
                               EvalFactor ''c'' env (Some (Origin ''(a + b)/c'' 8 9))]]\<rparr>)"
  by code_simp

lemma power_loop_terms:
  "\<not> intercept left_expr \<Longrightarrow> \<not> intercept big_expr \<Longrightarrow>
   terms big_expr = power_product (terms left_expr) j \<Longrightarrow>
   power_loop left_expr n big_expr acc =
     Inr (acc @ concat (map (power_product (terms left_expr)) [Suc j..<Suc j + n]))"
proof (induction n arbitrary: big_expr acc j)
  case 0
  then show ?case by simp
next
  case (Suc n)
  let ?b = "\<lparr>intercept = False, intercept_origin = None, intercept_removed = False,
    terms = to_unique_tuple Term_eq (interaction_terms (terms left_expr) (terms big_expr))\<rparr>"
  have i: "interaction left_expr big_expr = Inr ?b"
    using Suc.prems by (simp add: interaction_Inr)
  have t: "terms ?b = power_product (terms left_expr) (Suc j)"
    using Suc.prems by simp
  have "power_loop left_expr n ?b (acc @ terms ?b) =
     Inr ((acc @ terms ?b)
          @ concat (map (power_product (terms left_expr)) [Suc (Suc j)..<Suc (Suc j) + n]))"
    using Suc.prems(1) by (intro Suc.IH [OF _ _ t]) simp_all
  moreover have "[Suc j..<Suc j + Suc n] = Suc j # [Suc (Suc j)..<Suc (Suc j) + n]"
    by (simp add: upt_rec)
  ultimately show ?case using t by (simp add: i)
qed

lemma ex_abcd_power_2:
  "eval env formula_abcd_power_2 req =
     Inr (Expr \<lparr>intercept = False, intercept_origin = None, intercept_removed = False,
        terms =
          [Term [EvalFactor ''a'' env (Some (Origin ''(a+b+c+d)**2'' 1 2))],
           Term [EvalFactor ''b'' env (Some (Origin ''(a+b+c+d)**2'' 3 4))],
           Term [EvalFactor ''c'' env (Some (Origin ''(a+b+c+d)**2'' 5 6))],
           Term [EvalFactor ''d'' env (Some (Origin ''(a+b+c+d)**2'' 7 8))],
           Term [EvalFactor ''a'' env (Some (Origin ''(a+b+c+d)**2'' 1 2)),
                 EvalFactor ''b'' env (Some (Origin ''(a+b+c+d)**2'' 3 4))],
           Term [EvalFactor ''a'' env (Some (Origin ''(a+b+c+d)**2'' 1 2)),
                 EvalFactor ''c'' env (Some (Origin ''(a+b+c+d)**2'' 5 6))],
           Term [EvalFactor ''a'' env (Some (Origin ''(a+b+c+d)**2'' 1 2)),
                 EvalFactor ''d'' env (Some (Origin ''(a+b+c+d)**2'' 7 8))],
           Term [EvalFactor ''b'' env (Some (Origin ''(a+b+c+d)**2'' 3 4)),
                 EvalFactor ''c'' env (Some (Origin ''(a+b+c+d)**2'' 5 6))],
           Term [EvalFactor ''b'' env (Some (Origin ''(a+b+c+d)**2'' 3 4)),
                 EvalFactor ''d'' env (Some (Origin ''(a+b+c+d)**2'' 7 8))],
           Term [EvalFactor ''c'' env (Some (Origin ''(a+b+c+d)**2'' 5 6)),
                 EvalFactor ''d'' env (Some (Origin ''(a+b+c+d)**2'' 7 8))]]\<rparr>)"
  by code_simp

lemma Term_eq_INTERCEPT [simp]:
  "Term_eq t INTERCEPT = (factors t = [])"
  "Term_eq INTERCEPT t = (factors t = [])"
  by (auto simp: Term_eq_def frozenset_def)

lemma term_code_simps: "term_code t = (if factors t = [] then ''1'' else name t)"
  by (simp add: term_code_def)

lemma no_INTERCEPT:
  assumes "\<not> contains Term_eq INTERCEPT ts"
  shows "filter (\<lambda>t. t \<noteq> INTERCEPT) ts = ts" and "map term_code ts = map name ts"
proof -
  have n: "\<forall>t\<in>set ts. factors t \<noteq> []"
    using assms by (simp add: contains_def list_ex_iff)
  then have "\<forall>t\<in>set ts. t \<noteq> INTERCEPT" by auto
  then show "filter (\<lambda>t. t \<noteq> INTERCEPT) ts = ts" by (simp add: filter_id_conv)
  show "map term_code ts = map name ts" using n by (simp add: term_code_simps)
qed

lemma frozenset_eq_iff:
  "(frozenset xs = frozenset ys) =
     ((\<forall>x\<in>set xs. \<exists>y\<in>set ys. factor_eq x y) \<and> (\<forall>y\<in>set ys. \<exists>x\<in>set xs. factor_eq y x))"
  unfolding frozenset_def factor_eq_key by (auto simp: image_iff)

lemma eval_Desc_tilde:
  assumes "eval env tree False = Inr (Desc md)"
  shows "\<exists>exprs. eval_args (\<lambda>t. expr_of (eval env t True)) (args tree) = Inr exprs
           \<and> list_all wf_expr exprs
           \<and> eval_any_tilde (\<lambda>t. expr_of (eval env t True)) tree = Inr md"
proof -
  let ?ev = "\<lambda>t. expr_of (eval env t True)"
  obtain r where r: "evaluators (node_type tree, length (args tree)) = Some r"
    and run: "run_rule r ?ev env tree = Inr (Desc md)"
    using assms
    by (auto simp: eval.simps [of env tree] split: option.splits sum.splits result.splits)
  have "r = Rule_any_tilde"
    using run by (cases r) (auto simp: map_sum_def split: sum.splits)
  then have t: "eval_any_tilde ?ev tree = Inr md"
    using run by (cases "eval_any_tilde ?ev tree") simp_all
  then obtain exprs where e: "eval_args ?ev (args tree) = Inr exprs"
    by (cases "eval_args ?ev (args tree)") (simp_all add: eval_any_tilde_def)
  have "list_all wf_expr xs" if "eval_args ?ev ts = Inr xs" for ts xs
    using that
  proof (induction ts arbitrary: xs)
    case Nil
    then show ?case by simp
  next
    case (Cons a ts)
    then show ?case
      using expr_of_ok [OF eval_ok [of True env a]]
      by (auto split: sum.splits)
  qed
  with e t show ?thesis by blast
qed

lemma maybe_add_intercept_objects:
  "nonempty_terms ts \<Longrightarrow> t \<in> set (to_unique_tuple Term_eq (maybe_add_intercept doit ts)) \<Longrightarrow>
   factors t = [] \<Longrightarrow> t = INTERCEPT"
  using to_unique_tuple_subset [of Term_eq "maybe_add_intercept doit ts"]
  by (auto simp: maybe_add_intercept_def nonempty_terms_def list_all_iff split: if_splits)

text \<open>
  In a \<^verbatim>\<open>ModelDesc\<close> that the evaluator returns, the only term without factors is the
  object \<^verbatim>\<open>INTERCEPT\<close> itself, so there the filter \<^verbatim>\<open>term != INTERCEPT\<close> of
  \<^verbatim>\<open>describe\<close> drops the terms that equal \<^verbatim>\<open>INTERCEPT\<close>.
\<close>

lemma from_formula_intercept_object:
  assumes "from_formula tree env = Inr md"
    and "t \<in> set (lhs_termlist md) \<union> set (rhs_termlist md)"
  shows "Term_eq t INTERCEPT = (t = INTERCEPT)"
proof -
  let ?ev = "\<lambda>t. expr_of (eval env t True)"
  have "eval env tree False = Inr (Desc md)"
    using assms(1) by (auto simp: from_formula_def split: sum.splits result.splits)
  from eval_Desc_tilde [OF this] obtain exprs where
    e: "eval_args ?ev (args tree) = Inr exprs" and w: "list_all wf_expr exprs"
    and m: "eval_any_tilde ?ev tree = Inr md"
    by blast
  have z: "IntermediateExpr_init False None True [] =
             Inr \<lparr>intercept = False, intercept_origin = None, intercept_removed = True,
                  terms = []\<rparr>"
    by (simp add: init_plain)
  let ?zero = "\<lparr>intercept = False, intercept_origin = None, intercept_removed = True,
                 terms = []\<rparr>"
  from m e have "(\<exists>x. exprs = [x] \<and> md = ModelDesc_init
                      (maybe_add_intercept (intercept ?zero) (terms ?zero))
                      (maybe_add_intercept (\<not> intercept_removed x) (terms x)))
      \<or> (\<exists>x y. exprs = [x, y] \<and> md = ModelDesc_init
                      (maybe_add_intercept (intercept x) (terms x))
                      (maybe_add_intercept (\<not> intercept_removed y) (terms y)))"
    by (auto simp: eval_any_tilde_def z split: list.splits if_splits)
  then obtain e0 e1 :: IntermediateExpr where
    md: "md = ModelDesc_init (maybe_add_intercept (intercept e0) (terms e0))
                (maybe_add_intercept (\<not> intercept_removed e1) (terms e1))"
    and n: "nonempty_terms (terms e0)" "nonempty_terms (terms e1)"
  proof (elim disjE exE conjE)
    fix x
    assume "exprs = [x]" and "md = ModelDesc_init
                      (maybe_add_intercept (intercept ?zero) (terms ?zero))
                      (maybe_add_intercept (\<not> intercept_removed x) (terms x))"
    then show ?thesis using w that [of ?zero x] by (simp add: wf_expr_def)
  next
    fix x y
    assume "exprs = [x, y]" and "md = ModelDesc_init
                      (maybe_add_intercept (intercept x) (terms x))
                      (maybe_add_intercept (\<not> intercept_removed y) (terms y))"
    then show ?thesis using w that [of x y] by (simp add: wf_expr_def)
  qed
  have "factors t = [] \<Longrightarrow> t = INTERCEPT"
    using assms(2) n
    by (auto simp: md ModelDesc_init_def dest: maybe_add_intercept_objects)
  then show ?thesis by auto
qed

lemma eval_interact_cases:
  assumes "node_type tree = '':''" and "args tree = [l, r]"
    and "eval env l True = Inr (Expr left_expr)"
    and "eval env r True = Inr (Expr right_expr)"
  shows "eval env tree req =
           (if intercept left_expr
            then Inl (CharltonError ''intercept term cannot interact with anything else''
                        (intercept_origin left_expr))
            else if intercept right_expr
            then Inl (CharltonError ''intercept term cannot interact with anything else''
                        (intercept_origin right_expr))
            else Inr (Expr \<lparr>intercept = False, intercept_origin = None,
                            intercept_removed = False,
                            terms = to_unique_tuple Term_eq
                              (interaction_terms (terms left_expr) (terms right_expr))\<rparr>))"
proof -
  have "eval env tree req = map_sum id Expr (interaction left_expr right_expr)"
    using assms by (simp add: eval_binary(5) [OF assms(2)] eval_binary_interact_def)
  then show ?thesis
    by (simp add: interaction_Inl_left interaction_Inl_right interaction_Inr)
qed

lemma eval_prod_cases:
  assumes "node_type tree = ''*''" and "args tree = [l, r]"
    and "eval env l True = Inr (Expr left_expr)"
    and "eval env r True = Inr (Expr right_expr)"
  shows "eval env tree req =
           (if intercept left_expr
            then Inl (CharltonError ''intercept term cannot interact with anything else''
                        (intercept_origin left_expr))
            else if intercept right_expr
            then Inl (CharltonError ''intercept term cannot interact with anything else''
                        (intercept_origin right_expr))
            else Inr (Expr \<lparr>intercept = False, intercept_origin = None,
                            intercept_removed = False,
                            terms = to_unique_tuple Term_eq
                              (terms left_expr @ terms right_expr
                               @ interaction_terms (terms left_expr) (terms right_expr))\<rparr>))"
proof -
  have a: "to_unique_tuple Term_eq (xs @ ys @ to_unique_tuple Term_eq zs) =
           to_unique_tuple Term_eq (xs @ ys @ zs)" for xs ys zs
    using terms_append_right [of "xs @ ys" zs] by simp
  have "eval env tree req =
          map_sum id Expr
            (case interaction left_expr right_expr of
               Inl e \<Rightarrow> Inl e
             | Inr both \<Rightarrow>
                 IntermediateExpr_init False None False
                   (terms left_expr @ terms right_expr @ terms both))"
    using assms by (simp add: eval_binary(3) [OF assms(2)] eval_binary_prod_def)
  then show ?thesis
    by (simp add: interaction_Inl_left interaction_Inl_right interaction_Inr init_plain a)
qed

lemma eval_div_cases:
  assumes "node_type tree = ''/''" and "args tree = [l, r]"
    and "eval env l True = Inr (Expr left_expr)"
    and "eval env r True = Inr (Expr right_expr)"
  shows "eval env tree req =
           (if intercept left_expr
            then Inl (CharltonError ''intercept term cannot interact with anything else''
                        (intercept_origin left_expr))
            else if intercept right_expr
            then Inl (CharltonError ''intercept term cannot interact with anything else''
                        (intercept_origin right_expr))
            else Inr (Expr \<lparr>intercept = False, intercept_origin = None,
                            intercept_removed = False,
                            terms = to_unique_tuple Term_eq
                              (terms left_expr
                               @ interaction_terms
                                   [Term_init (concat (map factors (terms left_expr)))]
                                   (terms right_expr))\<rparr>))"
proof (cases "intercept left_expr")
  case True
  then show ?thesis
    using assms
    by (simp add: eval_binary(4) [OF assms(2)] eval_binary_div_def check_interactable_simps)
next
  case False
  let ?c = "\<lparr>intercept = False, intercept_origin = None, intercept_removed = False,
             terms = [Term_init (concat (map factors (terms left_expr)))]\<rparr>"
  show ?thesis
  proof (cases "intercept right_expr")
    case True
    have i: "interaction ?c right_expr =
               Inl (CharltonError ''intercept term cannot interact with anything else''
                      (intercept_origin right_expr))"
      using True by (simp add: interaction_Inl_right)
    show ?thesis
      using assms False True
      by (simp add: eval_binary(4) [OF assms(2)] eval_binary_div_def check_interactable_simps
          init_plain i Let_def)
  next
    case r: False
    have i: "interaction ?c right_expr =
               Inr \<lparr>intercept = False, intercept_origin = None, intercept_removed = False,
                    terms = to_unique_tuple Term_eq
                      (interaction_terms [Term_init (concat (map factors (terms left_expr)))]
                         (terms right_expr))\<rparr>"
      using r by (simp add: interaction_Inr)
    show ?thesis
      using assms False r
      by (simp add: eval_binary(4) [OF assms(2)] eval_binary_div_def check_interactable_simps
          init_plain i terms_append_right Let_def)
  qed
qed

lemma eval_power_cases:
  assumes "node_type tree = ''**''" and "args tree = [l, r]"
    and "eval env l True = Inr (Expr left_expr)"
  shows "eval env tree req =
           (if intercept left_expr
            then Inl (CharltonError ''intercept term cannot interact with anything else''
                        (intercept_origin left_expr))
            else
              (case (if node_type r = ''ONE'' \<or> node_type r = ''NUMBER''
                     then int_of_str (extra (token r)) else None) of
                 None \<Rightarrow> Inl (CharltonError power_message (Some (NodeObj r)))
               | Some k \<Rightarrow>
                   if k < 1 then Inl (CharltonError power_message (Some (NodeObj r)))
                   else Inr (Expr \<lparr>intercept = False, intercept_origin = None,
                                   intercept_removed = False,
                                   terms = power_terms (terms left_expr)
                                     (min (length (terms left_expr)) (nat k))\<rparr>)))"
proof (cases "intercept left_expr")
  case True
  then show ?thesis
    using assms
    by (simp add: eval_binary(6) [OF assms(2)] eval_binary_power_def check_interactable_simps)
next
  case False
  have loop: "power_loop left_expr (nat (min (int (length (terms left_expr))) k - 1)) left_expr
                (terms left_expr) =
      Inr (terms left_expr
           @ concat (map (power_product (terms left_expr))
                       [1..<min (length (terms left_expr)) (nat k)]))" if "1 \<le> k" for k
  proof -
    let ?n = "length (terms left_expr)"
    let ?p = "min (int ?n) k"
    have "power_loop left_expr (nat (?p - 1)) left_expr (terms left_expr) =
      Inr (terms left_expr
           @ concat (map (power_product (terms left_expr)) [Suc 0..<Suc 0 + nat (?p - 1)]))"
      using False by (intro power_loop_terms) simp_all
    moreover have "[Suc 0..<Suc 0 + nat (?p - 1)] = [1..<min ?n (nat k)]"
    proof (cases "?n = 0")
      case True
      then show ?thesis by simp
    next
      case False
      then have "0 < ?n" by simp
      then have "Suc 0 + nat (?p - 1) = min ?n (nat k)"
        using that by arith
      then show ?thesis by simp
    qed
    ultimately show ?thesis by simp
  qed
  show ?thesis
    using assms False
    by (auto simp: eval_binary(6) [OF assms(2)] eval_binary_power_def check_interactable_simps
        Let_def loop init_plain power_terms_def not_less split: option.splits)
qed

lemma ex_a_div_b_plus_1:
  "eval env formula_a_div_b_plus_1 req =
     Inl (CharltonError ''intercept term cannot interact with anything else''
            (Some (OriginObj (Origin ''a/(b + 1)'' 7 8))))"
  by code_simp

lemma with_INTERCEPT_evaluated:
  assumes "\<forall>t\<in>set ts. Term_eq t INTERCEPT = (t = INTERCEPT)"
  shows "map term_code (filter (\<lambda>t. t \<noteq> INTERCEPT) ts) =
         map name (filter (\<lambda>t. \<not> Term_eq t INTERCEPT) ts)"
proof -
  have "filter (\<lambda>t. t \<noteq> INTERCEPT) ts = filter (\<lambda>t. \<not> Term_eq t INTERCEPT) ts"
    using assms by (intro filter_cong) auto
  moreover have "map term_code (filter (\<lambda>t. \<not> Term_eq t INTERCEPT) ts) =
      map name (filter (\<lambda>t. \<not> Term_eq t INTERCEPT) ts)"
    by (simp add: term_code_def)
  ultimately show ?thesis by simp
qed

lemma describe_cases:
  "describe md =
     join '' + '' (map term_code (lhs_termlist md))
     @ (if join '' + '' (map term_code (lhs_termlist md)) = [] then ''~ '' else '' ~ '')
     @ (if list_all2 Term_eq (rhs_termlist md) [INTERCEPT] then ''1''
        else join '' + ''
          ((if contains Term_eq INTERCEPT (rhs_termlist md) then [] else [''0''])
           @ map term_code (filter (\<lambda>t. t \<noteq> INTERCEPT) (rhs_termlist md))))"
  by (simp add: describe_def Let_def term_code_simps)

lemma ex_describe_1_b:
  "describe (ModelDesc_init [INTERCEPT] [INTERCEPT, Term_init [LookupFactor ''b'' None]])
     = ''1 ~ b''"
  by code_simp

lemma ex_1_prod_a:
  "eval env formula_1_prod_a req =
     Inl (CharltonError ''intercept term cannot interact with anything else''
            (Some (OriginObj (Origin ''1 * a'' 0 1))))"
  by code_simp

lemma ex_a_minus_1_prod_b:
  "eval env formula_a_minus_1_prod_b req =
     Inr (Expr \<lparr>intercept = False, intercept_origin = None, intercept_removed = False,
                terms = [Term [EvalFactor ''a'' env (Some (Origin ''(a - 1)*b'' 1 2))],
                         Term [EvalFactor ''b'' env (Some (Origin ''(a - 1)*b'' 8 9))],
                         Term [EvalFactor ''a'' env (Some (Origin ''(a - 1)*b'' 1 2)),
                               EvalFactor ''b'' env (Some (Origin ''(a - 1)*b'' 8 9))]]\<rparr>)"
  by code_simp

section \<open>The claims\<close>

text \<open>
  C1. A two-argument \<^verbatim>\<open>~\<close> node gives the \<^verbatim>\<open>ModelDesc\<close> whose left-hand list is the
  terms of the left operand, with \<^verbatim>\<open>INTERCEPT\<close> in front exactly when the left operand
  declared an intercept, and whose right-hand list is the terms of the right operand,
  with \<^verbatim>\<open>INTERCEPT\<close> in front exactly when the right operand did not remove its
  intercept. The one-argument form has the empty left-hand list. The formula
  \<^verbatim>\<open>y ~ a + b\<close> gives the left-hand list \<^verbatim>\<open>y\<close> and the right-hand list
  \<^verbatim>\<open>INTERCEPT, a, b\<close>.
\<close>

theorem tilde_model_desc:
  assumes "node_type tree = ''~''" and "eval env r True = Inr (Expr right_expr)"
  shows "(args tree = [l, r] \<longrightarrow> eval env l True = Inr (Expr left_expr) \<longrightarrow>
            eval env tree False =
              Inr (Desc \<lparr>lhs_termlist =
                           (if intercept left_expr then INTERCEPT # terms left_expr
                            else terms left_expr),
                         rhs_termlist =
                           (if \<not> intercept_removed right_expr then INTERCEPT # terms right_expr
                            else terms right_expr)\<rparr>))
         \<and> (args tree = [r] \<longrightarrow>
            eval env tree False =
              Inr (Desc \<lparr>lhs_termlist = [],
                         rhs_termlist =
                           (if \<not> intercept_removed right_expr then INTERCEPT # terms right_expr
                            else terms right_expr)\<rparr>))
         \<and> from_formula formula_y_a_b env =
             Inr \<lparr>lhs_termlist = [Term [EvalFactor ''y'' env (Some (Origin ''y ~ a + b'' 0 1))]],
                  rhs_termlist =
                    [INTERCEPT,
                     Term [EvalFactor ''a'' env (Some (Origin ''y ~ a + b'' 4 5))],
                     Term [EvalFactor ''b'' env (Some (Origin ''y ~ a + b'' 8 9))]]\<rparr>"
proof -
  note wr = eval_Expr_wf [OF assms(2)]
  have two: "eval env tree False =
              Inr (Desc \<lparr>lhs_termlist =
                           (if intercept left_expr then INTERCEPT # terms left_expr
                            else terms left_expr),
                         rhs_termlist =
                           (if \<not> intercept_removed right_expr then INTERCEPT # terms right_expr
                            else terms right_expr)\<rparr>)"
    if a: "args tree = [l, r]" and l: "eval env l True = Inr (Expr left_expr)"
  proof -
    note wl = eval_Expr_wf [OF l]
    show ?thesis
      using assms(2) l
      by (simp add: eval_tilde [OF assms(1)] a eval_any_tilde_def ModelDesc_init_def
          maybe_add_intercept_fixed [OF wl] maybe_add_intercept_fixed [OF wr])
  qed
  have one: "eval env tree False =
              Inr (Desc \<lparr>lhs_termlist = [],
                         rhs_termlist =
                           (if \<not> intercept_removed right_expr then INTERCEPT # terms right_expr
                            else terms right_expr)\<rparr>)"
    if a: "args tree = [r]"
  proof -
    have z: "maybe_add_intercept False [] = []"
      by (simp add: maybe_add_intercept_def)
    show ?thesis
      using assms(2)
      by (simp add: eval_tilde [OF assms(1)] a eval_any_tilde_def ModelDesc_init_def init_plain
          maybe_add_intercept_fixed [OF wr] z)
  qed
  show ?thesis using two one ex_y_a_b by blast
qed

theorem tilde_model_desc_witness:
  "eval 0 formula_y_a_b False =
     Inr (Desc \<lparr>lhs_termlist = [Term [EvalFactor ''y'' 0 (Some (Origin ''y ~ a + b'' 0 1))]],
          rhs_termlist =
            [INTERCEPT,
             Term [EvalFactor ''a'' 0 (Some (Origin ''y ~ a + b'' 4 5))],
             Term [EvalFactor ''b'' 0 (Some (Origin ''y ~ a + b'' 8 9))]]\<rparr>)
   \<and> eval 0 formula_tilde_a False =
     Inr (Desc \<lparr>lhs_termlist = [],
          rhs_termlist = [INTERCEPT, Term [EvalFactor ''a'' 0 (Some (Origin ''~ a'' 2 3))]]\<rparr>)"
proof -
  let ?l = "var ''y ~ a + b'' ''y'' 0"
  let ?r = "op_at ''y ~ a + b'' ''+'' 6 (var ''y ~ a + b'' ''a'' 4) (var ''y ~ a + b'' ''b'' 8)"
  let ?le = "\<lparr>intercept = False, intercept_origin = None, intercept_removed = False,
              terms = [Term [EvalFactor ''y'' 0 (Some (Origin ''y ~ a + b'' 0 1))]]\<rparr>"
  let ?re = "\<lparr>intercept = False, intercept_origin = None, intercept_removed = False,
              terms = [Term [EvalFactor ''a'' 0 (Some (Origin ''y ~ a + b'' 4 5))],
                       Term [EvalFactor ''b'' 0 (Some (Origin ''y ~ a + b'' 8 9))]]\<rparr>"
  let ?ae = "\<lparr>intercept = False, intercept_origin = None, intercept_removed = False,
              terms = [Term [EvalFactor ''a'' 0 (Some (Origin ''~ a'' 2 3))]]\<rparr>"
  have 1: "node_type formula_y_a_b = ''~''" by code_simp
  have 2: "args formula_y_a_b = [?l, ?r]"
    by (simp add: formula_y_a_b_def op_at_def binary_def)
  have 3: "eval 0 ?l True = Inr (Expr ?le)" by code_simp
  have 4: "eval 0 ?r True = Inr (Expr ?re)" by code_simp
  have 5: "node_type formula_tilde_a = ''~''" by code_simp
  have 6: "args formula_tilde_a = [var ''~ a'' ''a'' 2]"
    by (simp add: formula_tilde_a_def unary_def)
  have 7: "eval 0 (var ''~ a'' ''a'' 2) True = Inr (Expr ?ae)" by code_simp
  from tilde_model_desc [OF 1 4, of ?l ?le] 2 3
    tilde_model_desc [OF 5 7, of "var ''~ a'' ''a'' 2" ?ae] 6
  show ?thesis by simp
qed

text \<open>
  C2. A binary \<^verbatim>\<open>+\<close> whose right operand is the literal \<^verbatim>\<open>0\<close> returns the terms of
  its left operand, no intercept and \<^verbatim>\<open>intercept_removed\<close> true, whatever intercept
  the left operand declared: \<^verbatim>\<open>1 + 0\<close> has no intercept, \<^verbatim>\<open>0 + 1\<close> has one.
\<close>

theorem binary_plus_zero:
  assumes "node_type tree = ''+''" and "args tree = [l, r]" and "node_type r = ''ZERO''"
    and "eval env l True = Inr (Expr left_expr)"
  shows "eval env tree req =
           Inr (Expr \<lparr>intercept = False, intercept_origin = None, intercept_removed = True,
                      terms = terms left_expr\<rparr>)
         \<and> eval env formula_1_plus_0 req =
           Inr (Expr \<lparr>intercept = False, intercept_origin = None, intercept_removed = True,
                      terms = []\<rparr>)
         \<and> eval env formula_0_plus_1 req =
           Inr (Expr \<lparr>intercept = True,
                      intercept_origin = Some (OriginObj (Origin ''0 + 1'' 4 5)),
                      intercept_removed = False, terms = []\<rparr>)"
proof -
  have "unique_terms (terms left_expr)"
    using eval_Expr_wf [OF assms(4)] by (simp add: wf_expr_def)
  then have "to_unique_tuple Term_eq (terms left_expr) = terms left_expr"
    by (rule unique_fixed)
  then have "eval env tree req =
           Inr (Expr \<lparr>intercept = False, intercept_origin = None, intercept_removed = True,
                      terms = terms left_expr\<rparr>)"
    using assms
    by (simp add: eval_binary(1) [OF assms(2)] eval_binary_plus_def init_plain)
  then show ?thesis by (simp add: ex_1_plus_0 ex_0_plus_1)
qed

theorem binary_plus_zero_witness:
  "node_type formula_a_plus_0 = ''+''
   \<and> eval 0 formula_a_plus_0 True =
       Inr (Expr \<lparr>intercept = False, intercept_origin = None, intercept_removed = True,
                  terms = [Term [EvalFactor ''a'' 0 (Some (Origin ''a + 0'' 0 1))]]\<rparr>)"
proof -
  have 1: "node_type formula_a_plus_0 = ''+''"
    by code_simp
  have 2: "args formula_a_plus_0 =
             [var ''a + 0'' ''a'' 0, leaf ''ZERO'' ''0'' (Origin ''a + 0'' 4 5)]"
    by (simp add: formula_a_plus_0_def op_at_def binary_def)
  have 3: "node_type (leaf ''ZERO'' ''0'' (Origin ''a + 0'' 4 5)) = ''ZERO''"
    by (simp add: leaf_def)
  have 4: "eval 0 (var ''a + 0'' ''a'' 0) True =
             Inr (Expr \<lparr>intercept = False, intercept_origin = None, intercept_removed = False,
                        terms = [Term [EvalFactor ''a'' 0 (Some (Origin ''a + 0'' 0 1))]]\<rparr>)"
    by code_simp
  from binary_plus_zero [OF 1 2 3 4, of True] show ?thesis
    by (simp add: 1)
qed

text \<open>
  C3. A \<^verbatim>\<open>/\<close> node fails with \<^verbatim>\<open>intercept term cannot interact with anything else\<close>
  when its left operand has a pending intercept, and also when its right operand has
  one, the error carrying the origin of that intercept. When neither operand has one it
  returns the terms of its left operand followed by the interactions of one combined
  term, built from the factors of all left terms in order, with every term of the right
  operand (the list made unique, first occurrences kept). \<^verbatim>\<open>(a + b)/c\<close> has the terms
  \<^verbatim>\<open>a\<close>, \<^verbatim>\<open>b\<close> and \<^verbatim>\<open>a:b:c\<close>. A left operand without a pending intercept is not
  enough for a result: \<^verbatim>\<open>a/1\<close> and \<^verbatim>\<open>a/(b + 1)\<close> fail.
\<close>

theorem binary_div_terms:
  assumes "node_type tree = ''/''" and "args tree = [l, r]"
    and "eval env l True = Inr (Expr left_expr)"
    and "eval env r True = Inr (Expr right_expr)"
  shows "eval env tree req =
           (if intercept left_expr
            then Inl (CharltonError ''intercept term cannot interact with anything else''
                        (intercept_origin left_expr))
            else if intercept right_expr
            then Inl (CharltonError ''intercept term cannot interact with anything else''
                        (intercept_origin right_expr))
            else Inr (Expr \<lparr>intercept = False, intercept_origin = None,
                            intercept_removed = False,
                            terms = to_unique_tuple Term_eq
                              (terms left_expr
                               @ interaction_terms
                                   [Term_init (concat (map factors (terms left_expr)))]
                                   (terms right_expr))\<rparr>))
         \<and> eval env formula_ab_div_c req =
             Inr (Expr \<lparr>intercept = False, intercept_origin = None, intercept_removed = False,
                terms = [Term [EvalFactor ''a'' env (Some (Origin ''(a + b)/c'' 1 2))],
                         Term [EvalFactor ''b'' env (Some (Origin ''(a + b)/c'' 5 6))],
                         Term [EvalFactor ''a'' env (Some (Origin ''(a + b)/c'' 1 2)),
                               EvalFactor ''b'' env (Some (Origin ''(a + b)/c'' 5 6)),
                               EvalFactor ''c'' env (Some (Origin ''(a + b)/c'' 8 9))]]\<rparr>)
         \<and> eval env formula_a_div_b_plus_1 req =
             Inl (CharltonError ''intercept term cannot interact with anything else''
                    (Some (OriginObj (Origin ''a/(b + 1)'' 7 8))))"
  using eval_div_cases [OF assms, of req] by (simp add: ex_ab_div_c ex_a_div_b_plus_1)

theorem binary_div_terms_witness:
  "node_type formula_ab_div_c = ''/''
   \<and> eval 0 formula_ab_div_c True =
       Inr (Expr \<lparr>intercept = False, intercept_origin = None, intercept_removed = False,
                terms = [Term [EvalFactor ''a'' 0 (Some (Origin ''(a + b)/c'' 1 2))],
                         Term [EvalFactor ''b'' 0 (Some (Origin ''(a + b)/c'' 5 6))],
                         Term [EvalFactor ''a'' 0 (Some (Origin ''(a + b)/c'' 1 2)),
                               EvalFactor ''b'' 0 (Some (Origin ''(a + b)/c'' 5 6)),
                               EvalFactor ''c'' 0 (Some (Origin ''(a + b)/c'' 8 9))]]\<rparr>)
   \<and> node_type formula_a_div_b_plus_1 = ''/''
   \<and> eval 0 (op_at ''a/(b + 1)'' ''+'' 5 (var ''a/(b + 1)'' ''b'' 3)
               (leaf ''ONE'' ''1'' (Origin ''a/(b + 1)'' 7 8))) True =
       Inr (Expr \<lparr>intercept = True,
                  intercept_origin = Some (OriginObj (Origin ''a/(b + 1)'' 7 8)),
                  intercept_removed = False,
                  terms = [Term [EvalFactor ''b'' 0 (Some (Origin ''a/(b + 1)'' 3 4))]]\<rparr>)
   \<and> eval 0 formula_a_div_b_plus_1 True =
       Inl (CharltonError ''intercept term cannot interact with anything else''
              (Some (OriginObj (Origin ''a/(b + 1)'' 7 8))))"
proof -
  let ?l = "op_at ''(a + b)/c'' ''+'' 3 (var ''(a + b)/c'' ''a'' 1) (var ''(a + b)/c'' ''b'' 5)"
  let ?r = "var ''(a + b)/c'' ''c'' 8"
  let ?le = "\<lparr>intercept = False, intercept_origin = None, intercept_removed = False,
      terms = [Term [EvalFactor ''a'' 0 (Some (Origin ''(a + b)/c'' 1 2))],
               Term [EvalFactor ''b'' 0 (Some (Origin ''(a + b)/c'' 5 6))]]\<rparr>"
  let ?re = "\<lparr>intercept = False, intercept_origin = None, intercept_removed = False,
      terms = [Term [EvalFactor ''c'' 0 (Some (Origin ''(a + b)/c'' 8 9))]]\<rparr>"
  have 1: "node_type formula_ab_div_c = ''/''" by code_simp
  have 2: "args formula_ab_div_c = [?l, ?r]"
    by (simp add: formula_ab_div_c_def op_at_def binary_def)
  have 3: "eval 0 ?l True = Inr (Expr ?le)" by code_simp
  have 4: "eval 0 ?r True = Inr (Expr ?re)" by code_simp
  have 7: "to_unique_tuple Term_eq
             (terms ?le @ interaction_terms [Term_init (concat (map factors (terms ?le)))]
                (terms ?re)) =
           [Term [EvalFactor ''a'' 0 (Some (Origin ''(a + b)/c'' 1 2))],
            Term [EvalFactor ''b'' 0 (Some (Origin ''(a + b)/c'' 5 6))],
            Term [EvalFactor ''a'' 0 (Some (Origin ''(a + b)/c'' 1 2)),
                  EvalFactor ''b'' 0 (Some (Origin ''(a + b)/c'' 5 6)),
                  EvalFactor ''c'' 0 (Some (Origin ''(a + b)/c'' 8 9))]]"
    by code_simp
  have a: "eval 0 formula_ab_div_c True =
       Inr (Expr \<lparr>intercept = False, intercept_origin = None, intercept_removed = False,
                terms = [Term [EvalFactor ''a'' 0 (Some (Origin ''(a + b)/c'' 1 2))],
                         Term [EvalFactor ''b'' 0 (Some (Origin ''(a + b)/c'' 5 6))],
                         Term [EvalFactor ''a'' 0 (Some (Origin ''(a + b)/c'' 1 2)),
                               EvalFactor ''b'' 0 (Some (Origin ''(a + b)/c'' 5 6)),
                               EvalFactor ''c'' 0 (Some (Origin ''(a + b)/c'' 8 9))]]\<rparr>)"
    using binary_div_terms [OF 1 2 3 4, of True, THEN conjunct1] unfolding 7 by simp
  let ?l' = "var ''a/(b + 1)'' ''a'' 0"
  let ?r' = "op_at ''a/(b + 1)'' ''+'' 5 (var ''a/(b + 1)'' ''b'' 3)
               (leaf ''ONE'' ''1'' (Origin ''a/(b + 1)'' 7 8))"
  let ?le' = "\<lparr>intercept = False, intercept_origin = None, intercept_removed = False,
      terms = [Term [EvalFactor ''a'' 0 (Some (Origin ''a/(b + 1)'' 0 1))]]\<rparr>"
  let ?re' = "\<lparr>intercept = True,
      intercept_origin = Some (OriginObj (Origin ''a/(b + 1)'' 7 8)),
      intercept_removed = False,
      terms = [Term [EvalFactor ''b'' 0 (Some (Origin ''a/(b + 1)'' 3 4))]]\<rparr>"
  have 11: "node_type formula_a_div_b_plus_1 = ''/''" by code_simp
  have 12: "args formula_a_div_b_plus_1 = [?l', ?r']"
    by (simp add: formula_a_div_b_plus_1_def op_at_def binary_def)
  have 13: "eval 0 ?l' True = Inr (Expr ?le')" by code_simp
  have 14: "eval 0 ?r' True = Inr (Expr ?re')" by code_simp
  have b: "eval 0 formula_a_div_b_plus_1 True =
       Inl (CharltonError ''intercept term cannot interact with anything else''
              (Some (OriginObj (Origin ''a/(b + 1)'' 7 8))))"
    using binary_div_terms [OF 11 12 13 14, of True, THEN conjunct1] by simp
  show ?thesis using a b 1 11 14 by blast
qed

theorem binary_div_right_intercept_counterexample:
  "node_type formula_a_div_1 = ''/''
   \<and> args formula_a_div_1 = [var ''a/1'' ''a'' 0, leaf ''ONE'' ''1'' (Origin ''a/1'' 2 3)]
   \<and> eval 0 (var ''a/1'' ''a'' 0) True =
       Inr (Expr \<lparr>intercept = False, intercept_origin = None, intercept_removed = False,
                  terms = [Term [EvalFactor ''a'' 0 (Some (Origin ''a/1'' 0 1))]]\<rparr>)
   \<and> eval 0 formula_a_div_1 True =
       Inl (CharltonError ''intercept term cannot interact with anything else''
              (Some (OriginObj (Origin ''a/1'' 2 3))))"
  by code_simp

text \<open>
  C4. A \<^verbatim>\<open>**\<close> node whose left operand has no pending intercept and whose exponent is
  the literal of a positive integer \<open>k\<close> returns the terms of the left operand and the
  interactions of the orders 2 to the smaller of \<open>k\<close> and the number of left terms,
  each order got by interacting the left terms with the product before it, collected in
  this order. An exponent above the number of left terms gives what the number of left
  terms gives. \<^verbatim>\<open>(a+b+c+d)**2\<close> has the four main effects and the six interactions of
  two factors.
\<close>

theorem binary_power_terms:
  assumes "node_type tree = ''**''" and "args tree = [l, r]"
    and "eval env l True = Inr (Expr left_expr)" and "\<not> intercept left_expr"
    and "node_type r = ''ONE'' \<or> node_type r = ''NUMBER''"
    and "int_of_str (extra (token r)) = Some k" and "1 \<le> k"
  shows "eval env tree req =
           Inr (Expr \<lparr>intercept = False, intercept_origin = None, intercept_removed = False,
                      terms = power_terms (terms left_expr)
                                (min (length (terms left_expr)) (nat k))\<rparr>)
         \<and> (int (length (terms left_expr)) \<le> k \<longrightarrow>
              eval env tree req =
                Inr (Expr \<lparr>intercept = False, intercept_origin = None,
                           intercept_removed = False,
                           terms = power_terms (terms left_expr) (length (terms left_expr))\<rparr>))
         \<and> eval env formula_abcd_power_2 req =
     Inr (Expr \<lparr>intercept = False, intercept_origin = None, intercept_removed = False,
        terms =
          [Term [EvalFactor ''a'' env (Some (Origin ''(a+b+c+d)**2'' 1 2))],
           Term [EvalFactor ''b'' env (Some (Origin ''(a+b+c+d)**2'' 3 4))],
           Term [EvalFactor ''c'' env (Some (Origin ''(a+b+c+d)**2'' 5 6))],
           Term [EvalFactor ''d'' env (Some (Origin ''(a+b+c+d)**2'' 7 8))],
           Term [EvalFactor ''a'' env (Some (Origin ''(a+b+c+d)**2'' 1 2)),
                 EvalFactor ''b'' env (Some (Origin ''(a+b+c+d)**2'' 3 4))],
           Term [EvalFactor ''a'' env (Some (Origin ''(a+b+c+d)**2'' 1 2)),
                 EvalFactor ''c'' env (Some (Origin ''(a+b+c+d)**2'' 5 6))],
           Term [EvalFactor ''a'' env (Some (Origin ''(a+b+c+d)**2'' 1 2)),
                 EvalFactor ''d'' env (Some (Origin ''(a+b+c+d)**2'' 7 8))],
           Term [EvalFactor ''b'' env (Some (Origin ''(a+b+c+d)**2'' 3 4)),
                 EvalFactor ''c'' env (Some (Origin ''(a+b+c+d)**2'' 5 6))],
           Term [EvalFactor ''b'' env (Some (Origin ''(a+b+c+d)**2'' 3 4)),
                 EvalFactor ''d'' env (Some (Origin ''(a+b+c+d)**2'' 7 8))],
           Term [EvalFactor ''c'' env (Some (Origin ''(a+b+c+d)**2'' 5 6)),
                 EvalFactor ''d'' env (Some (Origin ''(a+b+c+d)**2'' 7 8))]]\<rparr>)"
proof -
  let ?n = "length (terms left_expr)"
  let ?p = "min (int ?n) k"
  have loop: "power_loop left_expr (nat (?p - 1)) left_expr (terms left_expr) =
      Inr (terms left_expr
           @ concat (map (power_product (terms left_expr)) [Suc 0..<Suc 0 + nat (?p - 1)]))"
    using assms(4) by (intro power_loop_terms) simp_all
  have range: "[Suc 0..<Suc 0 + nat (?p - 1)] = [1..<min ?n (nat k)]"
  proof (cases "?n = 0")
    case True
    then show ?thesis by simp
  next
    case False
    then have "0 < ?n" by simp
    then have "Suc 0 + nat (?p - 1) = min ?n (nat k)"
      using assms(7) by arith
    then show ?thesis by simp
  qed
  have loop': "power_loop left_expr (nat (?p - 1)) left_expr (terms left_expr) =
      Inr (terms left_expr
           @ concat (map (power_product (terms left_expr)) [1..<min ?n (nat k)]))"
    using loop unfolding range .
  have main: "eval env tree req =
           Inr (Expr \<lparr>intercept = False, intercept_origin = None, intercept_removed = False,
                      terms = power_terms (terms left_expr) (min ?n (nat k))\<rparr>)"
    using assms(1,3,4,5,6,7)
    by (auto simp: eval_binary(6) [OF assms(2)] eval_binary_power_def arg_pair [OF assms(2)]
        check_interactable_simps Let_def loop' init_plain power_terms_def)
  moreover have "int ?n \<le> k \<longrightarrow> min ?n (nat k) = ?n"
    by auto
  ultimately show ?thesis by (simp add: ex_abcd_power_2)
qed

theorem binary_power_terms_witness:
  "node_type formula_abcd_power_2 = ''**''
   \<and> int_of_str ''2'' = Some 2
   \<and> eval 0 formula_abcd_power_2 True =
     Inr (Expr \<lparr>intercept = False, intercept_origin = None, intercept_removed = False,
        terms =
          [Term [EvalFactor ''a'' 0 (Some (Origin ''(a+b+c+d)**2'' 1 2))],
           Term [EvalFactor ''b'' 0 (Some (Origin ''(a+b+c+d)**2'' 3 4))],
           Term [EvalFactor ''c'' 0 (Some (Origin ''(a+b+c+d)**2'' 5 6))],
           Term [EvalFactor ''d'' 0 (Some (Origin ''(a+b+c+d)**2'' 7 8))],
           Term [EvalFactor ''a'' 0 (Some (Origin ''(a+b+c+d)**2'' 1 2)),
                 EvalFactor ''b'' 0 (Some (Origin ''(a+b+c+d)**2'' 3 4))],
           Term [EvalFactor ''a'' 0 (Some (Origin ''(a+b+c+d)**2'' 1 2)),
                 EvalFactor ''c'' 0 (Some (Origin ''(a+b+c+d)**2'' 5 6))],
           Term [EvalFactor ''a'' 0 (Some (Origin ''(a+b+c+d)**2'' 1 2)),
                 EvalFactor ''d'' 0 (Some (Origin ''(a+b+c+d)**2'' 7 8))],
           Term [EvalFactor ''b'' 0 (Some (Origin ''(a+b+c+d)**2'' 3 4)),
                 EvalFactor ''c'' 0 (Some (Origin ''(a+b+c+d)**2'' 5 6))],
           Term [EvalFactor ''b'' 0 (Some (Origin ''(a+b+c+d)**2'' 3 4)),
                 EvalFactor ''d'' 0 (Some (Origin ''(a+b+c+d)**2'' 7 8))],
           Term [EvalFactor ''c'' 0 (Some (Origin ''(a+b+c+d)**2'' 5 6)),
                 EvalFactor ''d'' 0 (Some (Origin ''(a+b+c+d)**2'' 7 8))]]\<rparr>)
   \<and> eval 0 formula_a_power_2 True =
     Inr (Expr \<lparr>intercept = False, intercept_origin = None, intercept_removed = False,
        terms = [Term [EvalFactor ''a'' 0 (Some (Origin ''a ** 2'' 0 1))]]\<rparr>)"
proof -
  let ?l = "op_at ''(a+b+c+d)**2'' ''+'' 6
          (op_at ''(a+b+c+d)**2'' ''+'' 4
             (op_at ''(a+b+c+d)**2'' ''+'' 2
                (var ''(a+b+c+d)**2'' ''a'' 1) (var ''(a+b+c+d)**2'' ''b'' 3))
             (var ''(a+b+c+d)**2'' ''c'' 5))
          (var ''(a+b+c+d)**2'' ''d'' 7)"
  let ?r = "leaf ''NUMBER'' ''2'' (Origin ''(a+b+c+d)**2'' 11 12)"
  let ?le = "\<lparr>intercept = False, intercept_origin = None, intercept_removed = False,
      terms = [Term [EvalFactor ''a'' 0 (Some (Origin ''(a+b+c+d)**2'' 1 2))],
               Term [EvalFactor ''b'' 0 (Some (Origin ''(a+b+c+d)**2'' 3 4))],
               Term [EvalFactor ''c'' 0 (Some (Origin ''(a+b+c+d)**2'' 5 6))],
               Term [EvalFactor ''d'' 0 (Some (Origin ''(a+b+c+d)**2'' 7 8))]]\<rparr>"
  let ?l' = "var ''a ** 2'' ''a'' 0"
  let ?r' = "leaf ''NUMBER'' ''2'' (Origin ''a ** 2'' 5 6)"
  let ?le' = "\<lparr>intercept = False, intercept_origin = None, intercept_removed = False,
      terms = [Term [EvalFactor ''a'' 0 (Some (Origin ''a ** 2'' 0 1))]]\<rparr>"
  have 1: "node_type formula_abcd_power_2 = ''**''" by code_simp
  have 2: "args formula_abcd_power_2 = [?l, ?r]"
    by (simp add: formula_abcd_power_2_def op_at_def binary_def)
  have 3: "eval 0 ?l True = Inr (Expr ?le)" by code_simp
  have 4: "\<not> intercept ?le" by simp
  have 5: "node_type ?r = ''ONE'' \<or> node_type ?r = ''NUMBER''" by (simp add: leaf_def)
  have 6: "int_of_str (extra (token ?r)) = Some 2" by code_simp
  have 7: "(1::int) \<le> 2" by simp
  have 8: "power_terms (terms ?le) (min (length (terms ?le)) (nat 2)) =
          [Term [EvalFactor ''a'' 0 (Some (Origin ''(a+b+c+d)**2'' 1 2))],
           Term [EvalFactor ''b'' 0 (Some (Origin ''(a+b+c+d)**2'' 3 4))],
           Term [EvalFactor ''c'' 0 (Some (Origin ''(a+b+c+d)**2'' 5 6))],
           Term [EvalFactor ''d'' 0 (Some (Origin ''(a+b+c+d)**2'' 7 8))],
           Term [EvalFactor ''a'' 0 (Some (Origin ''(a+b+c+d)**2'' 1 2)),
                 EvalFactor ''b'' 0 (Some (Origin ''(a+b+c+d)**2'' 3 4))],
           Term [EvalFactor ''a'' 0 (Some (Origin ''(a+b+c+d)**2'' 1 2)),
                 EvalFactor ''c'' 0 (Some (Origin ''(a+b+c+d)**2'' 5 6))],
           Term [EvalFactor ''a'' 0 (Some (Origin ''(a+b+c+d)**2'' 1 2)),
                 EvalFactor ''d'' 0 (Some (Origin ''(a+b+c+d)**2'' 7 8))],
           Term [EvalFactor ''b'' 0 (Some (Origin ''(a+b+c+d)**2'' 3 4)),
                 EvalFactor ''c'' 0 (Some (Origin ''(a+b+c+d)**2'' 5 6))],
           Term [EvalFactor ''b'' 0 (Some (Origin ''(a+b+c+d)**2'' 3 4)),
                 EvalFactor ''d'' 0 (Some (Origin ''(a+b+c+d)**2'' 7 8))],
           Term [EvalFactor ''c'' 0 (Some (Origin ''(a+b+c+d)**2'' 5 6)),
                 EvalFactor ''d'' 0 (Some (Origin ''(a+b+c+d)**2'' 7 8))]]"
    by code_simp
  have a: "eval 0 formula_abcd_power_2 True =
             Inr (Expr \<lparr>intercept = False, intercept_origin = None, intercept_removed = False,
                        terms = power_terms (terms ?le) (min (length (terms ?le)) (nat 2))\<rparr>)"
    by (rule binary_power_terms [OF 1 2 3 4 5 6 7, of True, THEN conjunct1])
  have 11: "node_type formula_a_power_2 = ''**''" by code_simp
  have 12: "args formula_a_power_2 = [?l', ?r']"
    by (simp add: formula_a_power_2_def op_at_def binary_def)
  have 13: "eval 0 ?l' True = Inr (Expr ?le')" by code_simp
  have 14: "\<not> intercept ?le'" by simp
  have 15: "node_type ?r' = ''ONE'' \<or> node_type ?r' = ''NUMBER''" by (simp add: leaf_def)
  have 16: "int_of_str (extra (token ?r')) = Some 2" by code_simp
  have 17: "int (length (terms ?le')) \<le> 2" by simp
  have 18: "power_terms (terms ?le') (length (terms ?le')) =
              [Term [EvalFactor ''a'' 0 (Some (Origin ''a ** 2'' 0 1))]]"
    by code_simp
  have b: "eval 0 formula_a_power_2 True =
             Inr (Expr \<lparr>intercept = False, intercept_origin = None, intercept_removed = False,
                        terms = power_terms (terms ?le') (length (terms ?le'))\<rparr>)"
    using binary_power_terms [OF 11 12 13 14 15 16 7, of True] 17 by blast
  have c: "int_of_str ''2'' = Some 2" by code_simp
  show ?thesis
    using a b unfolding 8 18 by (simp add: 1 c)
qed

text \<open>
  C5. Two terms built from factor sequences are equal exactly when the sequences have
  the same set of factors, whatever the order: every factor of one sequence equals
  a factor of the other. Equal terms have equal hashes; in particular \<^verbatim>\<open>Term([a, b]) == Term([b, a])\<close> and their
  hashes agree.
\<close>

theorem Term_eq_factor_sets:
  "(Term_eq (Term_init xs) (Term_init ys) \<longleftrightarrow> frozenset xs = frozenset ys)
   \<and> (frozenset xs = frozenset ys \<longleftrightarrow>
        (\<forall>x\<in>set xs. \<exists>y\<in>set ys. factor_eq x y) \<and> (\<forall>y\<in>set ys. \<exists>x\<in>set xs. factor_eq y x))
   \<and> (Term_eq s t \<longrightarrow> Term_hash hash_Term_with s = Term_hash hash_Term_with t)
   \<and> Term_eq (Term_init [a, b]) (Term_init [b, a])
   \<and> Term_hash hash_Term_with (Term_init [a, b]) = Term_hash hash_Term_with (Term_init [b, a])"
proof -
  have 1: "Term_eq (Term_init xs) (Term_init ys) \<longleftrightarrow> frozenset xs = frozenset ys"
    by (simp add: Term_eq_key)
  have 2: "Term_eq s t \<longrightarrow> Term_hash hash_Term_with s = Term_hash hash_Term_with t"
    by (simp add: Term_eq_def Term_hash_def)
  have s: "frozenset [a, b] = frozenset [b, a]"
    by (auto simp: frozenset_def)
  have 3: "Term_eq (Term_init [a, b]) (Term_init [b, a])"
    by (simp add: Term_eq_key s)
  have 4: "Term_hash hash_Term_with (Term_init [a, b]) = Term_hash hash_Term_with (Term_init [b, a])"
    using s by (simp add: Term_hash_def frozenset_to_unique_tuple)
  show ?thesis using 1 2 3 4 frozenset_eq_iff [of xs ys] by blast
qed

theorem Term_eq_factor_sets_witness:
  "Term_eq (Term_init [LookupFactor ''a'' None, LookupFactor ''b'' None, LookupFactor ''a'' None])
     (Term_init [LookupFactor ''b'' None, LookupFactor ''a'' None])
   \<and> Term_hash (\<lambda>S. int (card S)) (Term_init [LookupFactor ''a'' None, LookupFactor ''b'' None, LookupFactor ''a'' None])
     = Term_hash (\<lambda>S. int (card S)) (Term_init [LookupFactor ''b'' None, LookupFactor ''a'' None])"
proof -
  have e: "Term_eq (Term_init [LookupFactor ''a'' None, LookupFactor ''b'' None, LookupFactor ''a'' None])
     (Term_init [LookupFactor ''b'' None, LookupFactor ''a'' None])"
    by code_simp
  show ?thesis
    using e Term_eq_factor_sets [of "[]" "[]"
      "Term_init [LookupFactor ''a'' None, LookupFactor ''b'' None, LookupFactor ''a'' None]"
      "Term_init [LookupFactor ''b'' None, LookupFactor ''a'' None]" "\<lambda>S. int (card S)"]
    by blast
qed

text \<open>
  C6. A binary \<^verbatim>\<open>-\<close> whose right operand is neither the literal \<^verbatim>\<open>0\<close> nor the literal
  \<^verbatim>\<open>1\<close> keeps the terms of the left operand that equal no term of the right operand
  (by \<^verbatim>\<open>Term.__eq__\<close>, which ignores the order of the factors); the intercept is
  removed when the right operand declared one and is the left operand's otherwise. So
  \<^verbatim>\<open>a:b - a:b\<close> and \<^verbatim>\<open>a:b - b:a\<close> have no terms.
\<close>

theorem binary_minus_terms:
  assumes "node_type tree = ''-''" and "args tree = [l, r]"
    and "node_type r \<noteq> ''ZERO''" and "node_type r \<noteq> ''ONE''"
    and "eval env l True = Inr (Expr left_expr)"
    and "eval env r True = Inr (Expr right_expr)"
  shows "eval env tree req =
           Inr (Expr
             (if intercept right_expr
              then \<lparr>intercept = False, intercept_origin = None, intercept_removed = True,
                    terms = filter (\<lambda>t. \<not> contains Term_eq t (terms right_expr))
                              (terms left_expr)\<rparr>
              else \<lparr>intercept = intercept left_expr,
                    intercept_origin = intercept_origin left_expr,
                    intercept_removed = intercept_removed left_expr,
                    terms = filter (\<lambda>t. \<not> contains Term_eq t (terms right_expr))
                              (terms left_expr)\<rparr>))
         \<and> eval env formula_ab_minus_ab req =
             Inr (Expr \<lparr>intercept = False, intercept_origin = None,
                        intercept_removed = False, terms = []\<rparr>)
         \<and> eval env formula_ab_minus_ba req =
             Inr (Expr \<lparr>intercept = False, intercept_origin = None,
                        intercept_removed = False, terms = []\<rparr>)"
proof -
  let ?ts = "filter (\<lambda>t. \<not> contains Term_eq t (terms right_expr)) (terms left_expr)"
  note wl = eval_Expr_wf [OF assms(5)]
  have u: "to_unique_tuple Term_eq ?ts = ?ts"
    using wl by (intro unique_fixed unique_filter) (simp add: wf_expr_def)
  have "eval env tree req =
           Inr (Expr
             (if intercept right_expr
              then \<lparr>intercept = False, intercept_origin = None, intercept_removed = True,
                    terms = ?ts\<rparr>
              else \<lparr>intercept = intercept left_expr,
                    intercept_origin = intercept_origin left_expr,
                    intercept_removed = intercept_removed left_expr,
                    terms = ?ts\<rparr>))"
    using assms wf_intercept_origin [OF wl] wf_not_both [OF wl]
    by (simp add: eval_binary(2) [OF assms(2)] eval_binary_minus_def init_plain
        IntermediateExpr_init_Inr u Let_def)
  then show ?thesis by (simp add: ex_ab_minus_ab ex_ab_minus_ba)
qed

theorem binary_minus_terms_witness:
  "node_type formula_ab_minus_ba = ''-''
   \<and> eval 0 formula_ab_minus_ba True =
       Inr (Expr \<lparr>intercept = False, intercept_origin = None, intercept_removed = False,
                  terms = []\<rparr>)"
proof -
  let ?l = "op_at ''a:b - b:a'' '':'' 1 (var ''a:b - b:a'' ''a'' 0) (var ''a:b - b:a'' ''b'' 2)"
  let ?r = "op_at ''a:b - b:a'' '':'' 7 (var ''a:b - b:a'' ''b'' 6) (var ''a:b - b:a'' ''a'' 8)"
  let ?le = "\<lparr>intercept = False, intercept_origin = None, intercept_removed = False,
      terms = [Term [EvalFactor ''a'' 0 (Some (Origin ''a:b - b:a'' 0 1)),
                     EvalFactor ''b'' 0 (Some (Origin ''a:b - b:a'' 2 3))]]\<rparr>"
  let ?re = "\<lparr>intercept = False, intercept_origin = None, intercept_removed = False,
      terms = [Term [EvalFactor ''b'' 0 (Some (Origin ''a:b - b:a'' 6 7)),
                     EvalFactor ''a'' 0 (Some (Origin ''a:b - b:a'' 8 9))]]\<rparr>"
  have 1: "node_type formula_ab_minus_ba = ''-''" by code_simp
  have 2: "args formula_ab_minus_ba = [?l, ?r]"
    by (simp add: formula_ab_minus_ba_def op_at_def binary_def)
  have 3: "node_type ?r \<noteq> ''ZERO''" by (simp add: op_at_def binary_def)
  have 4: "node_type ?r \<noteq> ''ONE''" by (simp add: op_at_def binary_def)
  have 5: "eval 0 ?l True = Inr (Expr ?le)" by code_simp
  have 6: "eval 0 ?r True = Inr (Expr ?re)" by code_simp
  have 7: "contains Term_eq
             (Term [EvalFactor ''a'' 0 (Some (Origin ''a:b - b:a'' 0 1)),
                    EvalFactor ''b'' 0 (Some (Origin ''a:b - b:a'' 2 3))])
             [Term [EvalFactor ''b'' 0 (Some (Origin ''a:b - b:a'' 6 7)),
                    EvalFactor ''a'' 0 (Some (Origin ''a:b - b:a'' 8 9))]]"
    by code_simp
  from binary_minus_terms [OF 1 2 3 4 5 6, of True, THEN conjunct1] 7 show ?thesis
    by (simp add: 1)
qed

text \<open>
  C7. A \<^verbatim>\<open>:\<close> node fails with \<^verbatim>\<open>intercept term cannot interact with anything else\<close>
  when an operand has a pending intercept, the error carrying the origin of that
  intercept (the left operand's when it has one); otherwise its terms are the
  concatenations of the factors of a left term and of a right term, over all pairs,
  and nothing else. \<^verbatim>\<open>a:1\<close> fails at the origin of the node \<^verbatim>\<open>1\<close>.
\<close>

theorem interact_terms_or_error:
  assumes "node_type tree = '':''" and "args tree = [l, r]"
    and "eval env l True = Inr (Expr left_expr)"
    and "eval env r True = Inr (Expr right_expr)"
  shows "eval env tree req =
           (if intercept left_expr
            then Inl (CharltonError ''intercept term cannot interact with anything else''
                        (intercept_origin left_expr))
            else if intercept right_expr
            then Inl (CharltonError ''intercept term cannot interact with anything else''
                        (intercept_origin right_expr))
            else Inr (Expr \<lparr>intercept = False, intercept_origin = None,
                            intercept_removed = False,
                            terms = to_unique_tuple Term_eq
                              (concat (map (\<lambda>l_term.
                                 map (\<lambda>r_term. Term_init (factors l_term @ factors r_term))
                                   (terms right_expr))
                               (terms left_expr)))\<rparr>))
         \<and> (intercept left_expr \<longrightarrow> intercept_origin left_expr \<noteq> None)
         \<and> (intercept right_expr \<longrightarrow> intercept_origin right_expr \<noteq> None)
         \<and> eval env formula_a_interact_1 req =
             Inl (CharltonError ''intercept term cannot interact with anything else''
                    (Some (OriginObj (origin (args formula_a_interact_1 ! 1)))))"
proof -
  note wl = eval_Expr_wf [OF assms(3)] and wr = eval_Expr_wf [OF assms(4)]
  have "eval env tree req =
          map_sum id Expr (interaction left_expr right_expr)"
    using assms by (simp add: eval_binary(5) [OF assms(2)] eval_binary_interact_def)
  then have "eval env tree req =
           (if intercept left_expr
            then Inl (CharltonError ''intercept term cannot interact with anything else''
                        (intercept_origin left_expr))
            else if intercept right_expr
            then Inl (CharltonError ''intercept term cannot interact with anything else''
                        (intercept_origin right_expr))
            else Inr (Expr \<lparr>intercept = False, intercept_origin = None,
                            intercept_removed = False,
                            terms = to_unique_tuple Term_eq
                              (interaction_terms (terms left_expr) (terms right_expr))\<rparr>))"
    by (simp add: interaction_Inl_left interaction_Inl_right interaction_Inr)
  then show ?thesis
    using wf_intercept_origin [OF wl] wf_intercept_origin [OF wr] ex_a_interact_1_origin
    by (simp add: ex_a_interact_1 interaction_terms_def)
qed

theorem interact_terms_or_error_witness:
  "node_type formula_a_interact_b = '':''
   \<and> eval 0 formula_a_interact_b True =
       Inr (Expr \<lparr>intercept = False, intercept_origin = None, intercept_removed = False,
                  terms = [Term [EvalFactor ''a'' 0 (Some (Origin ''a:b'' 0 1)),
                                 EvalFactor ''b'' 0 (Some (Origin ''a:b'' 2 3))]]\<rparr>)"
proof -
  let ?l = "var ''a:b'' ''a'' 0"
  let ?r = "var ''a:b'' ''b'' 2"
  let ?le = "\<lparr>intercept = False, intercept_origin = None, intercept_removed = False,
      terms = [Term [EvalFactor ''a'' 0 (Some (Origin ''a:b'' 0 1))]]\<rparr>"
  let ?re = "\<lparr>intercept = False, intercept_origin = None, intercept_removed = False,
      terms = [Term [EvalFactor ''b'' 0 (Some (Origin ''a:b'' 2 3))]]\<rparr>"
  have 1: "node_type formula_a_interact_b = '':''" by code_simp
  have 2: "args formula_a_interact_b = [?l, ?r]"
    by (simp add: formula_a_interact_b_def op_at_def binary_def)
  have 3: "eval 0 ?l True = Inr (Expr ?le)" by code_simp
  have 4: "eval 0 ?r True = Inr (Expr ?re)" by code_simp
  have 5: "to_unique_tuple factor_eq
             [EvalFactor ''a'' 0 (Some (Origin ''a:b'' 0 1)),
              EvalFactor ''b'' 0 (Some (Origin ''a:b'' 2 3))] =
             [EvalFactor ''a'' 0 (Some (Origin ''a:b'' 0 1)),
              EvalFactor ''b'' 0 (Some (Origin ''a:b'' 2 3))]"
    by code_simp
  from interact_terms_or_error [OF 1 2 3 4, of True, THEN conjunct1] 5 show ?thesis
    by (simp add: 1 Term_init_def)
qed

text \<open>
  C8. \<^verbatim>\<open>describe\<close> renders the left-hand terms joined with \<^verbatim>\<open> + \<close>, then \<^verbatim>\<open> ~ \<close> (or
  \<^verbatim>\<open>~ \<close> with no space before it when the left-hand text is empty, as it is for an
  empty left-hand list), then the right-hand side. An intercept term renders as
  \<^verbatim>\<open>1\<close>, any other term as its name. A right-hand list equal to \<^verbatim>\<open>(INTERCEPT,)\<close>
  renders as \<^verbatim>\<open>1\<close>; otherwise, when \<^verbatim>\<open>INTERCEPT\<close> is not in the right-hand list, the
  right-hand side is \<^verbatim>\<open>0\<close> and the names of the terms, joined with \<^verbatim>\<open> + \<close>; and when
  \<^verbatim>\<open>INTERCEPT\<close> is in the list with other terms, it is the terms other than the object
  \<^verbatim>\<open>INTERCEPT\<close>, joined with \<^verbatim>\<open> + \<close>, which for a \<^verbatim>\<open>ModelDesc\<close> of the evaluator are
  the names of the terms that are no intercept.
\<close>

theorem describe_rendering:
  "term_code t = (if factors t = [] then ''1'' else name t)
   \<and> (lhs_termlist md = [] \<longrightarrow> join '' + '' (map term_code (lhs_termlist md)) = [])
   \<and> (list_all2 Term_eq (rhs_termlist md) [INTERCEPT] \<longrightarrow>
        describe md =
          join '' + '' (map term_code (lhs_termlist md))
          @ (if join '' + '' (map term_code (lhs_termlist md)) = [] then ''~ '' else '' ~ '')
          @ ''1'')
   \<and> (\<not> list_all2 Term_eq (rhs_termlist md) [INTERCEPT] \<longrightarrow>
        \<not> contains Term_eq INTERCEPT (rhs_termlist md) \<longrightarrow>
        describe md =
          join '' + '' (map term_code (lhs_termlist md))
          @ (if join '' + '' (map term_code (lhs_termlist md)) = [] then ''~ '' else '' ~ '')
          @ join '' + '' (''0'' # map name (rhs_termlist md)))
   \<and> (\<not> list_all2 Term_eq (rhs_termlist md) [INTERCEPT] \<longrightarrow>
        contains Term_eq INTERCEPT (rhs_termlist md) \<longrightarrow>
        describe md =
          join '' + '' (map term_code (lhs_termlist md))
          @ (if join '' + '' (map term_code (lhs_termlist md)) = [] then ''~ '' else '' ~ '')
          @ join '' + ''
              (map term_code (filter (\<lambda>t. t \<noteq> INTERCEPT) (rhs_termlist md))))
   \<and> (from_formula tree env = Inr md \<longrightarrow>
        describe md =
          join '' + '' (map term_code (lhs_termlist md))
          @ (if join '' + '' (map term_code (lhs_termlist md)) = [] then ''~ '' else '' ~ '')
          @ (if list_all2 Term_eq (rhs_termlist md) [INTERCEPT] then ''1''
             else join '' + ''
               ((if contains Term_eq INTERCEPT (rhs_termlist md) then [] else [''0''])
                @ map name (filter (\<lambda>t. \<not> Term_eq t INTERCEPT) (rhs_termlist md)))))
   \<and> describe (ModelDesc_init [INTERCEPT] [INTERCEPT, Term_init [LookupFactor ''b'' None]])
       = ''1 ~ b''"
proof -
  have 1: "term_code t = (if factors t = [] then ''1'' else name t)"
    by (rule term_code_simps)
  have 2: "lhs_termlist md = [] \<longrightarrow> join '' + '' (map term_code (lhs_termlist md)) = []"
    by simp
  have 3: "list_all2 Term_eq (rhs_termlist md) [INTERCEPT] \<longrightarrow>
        describe md =
          join '' + '' (map term_code (lhs_termlist md))
          @ (if join '' + '' (map term_code (lhs_termlist md)) = [] then ''~ '' else '' ~ '')
          @ ''1''"
    by (simp add: describe_def Let_def term_code_simps)
  have 4: "\<not> list_all2 Term_eq (rhs_termlist md) [INTERCEPT] \<longrightarrow>
        \<not> contains Term_eq INTERCEPT (rhs_termlist md) \<longrightarrow>
        describe md =
          join '' + '' (map term_code (lhs_termlist md))
          @ (if join '' + '' (map term_code (lhs_termlist md)) = [] then ''~ '' else '' ~ '')
          @ join '' + '' (''0'' # map name (rhs_termlist md))"
    by (simp add: describe_def Let_def no_INTERCEPT)
  have 5: "\<not> list_all2 Term_eq (rhs_termlist md) [INTERCEPT] \<longrightarrow>
        contains Term_eq INTERCEPT (rhs_termlist md) \<longrightarrow>
        describe md =
          join '' + '' (map term_code (lhs_termlist md))
          @ (if join '' + '' (map term_code (lhs_termlist md)) = [] then ''~ '' else '' ~ '')
          @ join '' + ''
              (map term_code (filter (\<lambda>t. t \<noteq> INTERCEPT) (rhs_termlist md)))"
    by (simp add: describe_cases)
  have 6: "describe md =
          join '' + '' (map term_code (lhs_termlist md))
          @ (if join '' + '' (map term_code (lhs_termlist md)) = [] then ''~ '' else '' ~ '')
          @ (if list_all2 Term_eq (rhs_termlist md) [INTERCEPT] then ''1''
             else join '' + ''
               ((if contains Term_eq INTERCEPT (rhs_termlist md) then [] else [''0''])
                @ map name (filter (\<lambda>t. \<not> Term_eq t INTERCEPT) (rhs_termlist md))))"
    if f: "from_formula tree env = Inr md"
  proof -
    have "\<forall>t\<in>set (rhs_termlist md). Term_eq t INTERCEPT = (t = INTERCEPT)"
      using from_formula_intercept_object [OF f] by blast
    then have "map term_code (filter (\<lambda>t. t \<noteq> INTERCEPT) (rhs_termlist md)) =
         map name (filter (\<lambda>t. \<not> Term_eq t INTERCEPT) (rhs_termlist md))"
      by (rule with_INTERCEPT_evaluated)
    then show ?thesis by (simp only: describe_cases)
  qed
  show ?thesis using 1 2 3 4 5 6 ex_describe_1_b by blast
qed

theorem describe_rendering_witness:
  "describe (ModelDesc_init [INTERCEPT, Term_init [LookupFactor ''a'' None]]
       [Term_init [LookupFactor ''a'' None],
        Term_init [LookupFactor ''a'' None, LookupFactor ''b'' None]])
     = ''1 + a ~ 0 + a + a:b''
   \<and> describe (ModelDesc_init [INTERCEPT] [INTERCEPT]) = ''1 ~ 1''
   \<and> describe (ModelDesc_init [] []) = ''~ 0''
   \<and> describe (ModelDesc_init [INTERCEPT] [INTERCEPT, Term_init [LookupFactor ''b'' None]])
       = ''1 ~ b''
   \<and> from_formula formula_y_a_b 0 =
       Inr \<lparr>lhs_termlist = [Term [EvalFactor ''y'' 0 (Some (Origin ''y ~ a + b'' 0 1))]],
            rhs_termlist =
              [INTERCEPT,
               Term [EvalFactor ''a'' 0 (Some (Origin ''y ~ a + b'' 4 5))],
               Term [EvalFactor ''b'' 0 (Some (Origin ''y ~ a + b'' 8 9))]]\<rparr>
   \<and> describe
       \<lparr>lhs_termlist = [Term [EvalFactor ''y'' 0 (Some (Origin ''y ~ a + b'' 0 1))]],
        rhs_termlist =
          [INTERCEPT,
           Term [EvalFactor ''a'' 0 (Some (Origin ''y ~ a + b'' 4 5))],
           Term [EvalFactor ''b'' 0 (Some (Origin ''y ~ a + b'' 8 9))]]\<rparr>
       = ''y ~ a + b''"
proof -
  let ?m = "ModelDesc_init [INTERCEPT, Term_init [LookupFactor ''a'' None]]
       [Term_init [LookupFactor ''a'' None],
        Term_init [LookupFactor ''a'' None, LookupFactor ''b'' None]]"
  let ?i = "ModelDesc_init [INTERCEPT] [INTERCEPT]"
  let ?e = "ModelDesc_init [] []"
  let ?b = "ModelDesc_init [INTERCEPT] [INTERCEPT, Term_init [LookupFactor ''b'' None]]"
  let ?y = "\<lparr>lhs_termlist = [Term [EvalFactor ''y'' 0 (Some (Origin ''y ~ a + b'' 0 1))]],
        rhs_termlist =
          [INTERCEPT,
           Term [EvalFactor ''a'' 0 (Some (Origin ''y ~ a + b'' 4 5))],
           Term [EvalFactor ''b'' 0 (Some (Origin ''y ~ a + b'' 8 9))]]\<rparr>"
  have 1: "\<not> list_all2 Term_eq (rhs_termlist ?m) [INTERCEPT]" by code_simp
  have 2: "\<not> contains Term_eq INTERCEPT (rhs_termlist ?m)" by code_simp
  have 3: "join '' + '' (map term_code (lhs_termlist ?m))
          @ (if join '' + '' (map term_code (lhs_termlist ?m)) = [] then ''~ '' else '' ~ '')
          @ join '' + '' (''0'' # map name (rhs_termlist ?m)) = ''1 + a ~ 0 + a + a:b''"
    by code_simp
  have 4: "list_all2 Term_eq (rhs_termlist ?i) [INTERCEPT]" by code_simp
  have 5: "join '' + '' (map term_code (lhs_termlist ?i))
          @ (if join '' + '' (map term_code (lhs_termlist ?i)) = [] then ''~ '' else '' ~ '')
          @ ''1'' = ''1 ~ 1''"
    by code_simp
  have 6: "\<not> list_all2 Term_eq (rhs_termlist ?e) [INTERCEPT]" by code_simp
  have 7: "\<not> contains Term_eq INTERCEPT (rhs_termlist ?e)" by code_simp
  have 8: "join '' + '' (map term_code (lhs_termlist ?e))
          @ (if join '' + '' (map term_code (lhs_termlist ?e)) = [] then ''~ '' else '' ~ '')
          @ join '' + '' (''0'' # map name (rhs_termlist ?e)) = ''~ 0''"
    by code_simp
  have 9: "\<not> list_all2 Term_eq (rhs_termlist ?b) [INTERCEPT]" by code_simp
  have 10: "contains Term_eq INTERCEPT (rhs_termlist ?b)" by code_simp
  have 11: "join '' + '' (map term_code (lhs_termlist ?b))
          @ (if join '' + '' (map term_code (lhs_termlist ?b)) = [] then ''~ '' else '' ~ '')
          @ join '' + '' (map term_code (filter (\<lambda>t. t \<noteq> INTERCEPT) (rhs_termlist ?b)))
          = ''1 ~ b''"
    by code_simp
  have 12: "from_formula formula_y_a_b 0 = Inr ?y" by code_simp
  have 13: "join '' + '' (map term_code (lhs_termlist ?y))
          @ (if join '' + '' (map term_code (lhs_termlist ?y)) = [] then ''~ '' else '' ~ '')
          @ (if list_all2 Term_eq (rhs_termlist ?y) [INTERCEPT] then ''1''
             else join '' + ''
               ((if contains Term_eq INTERCEPT (rhs_termlist ?y) then [] else [''0''])
                @ map name (filter (\<lambda>t. \<not> Term_eq t INTERCEPT) (rhs_termlist ?y))))
          = ''y ~ a + b''"
    by code_simp
  have a: "describe ?m = ''1 + a ~ 0 + a + a:b''"
    using describe_rendering [of INTERCEPT ?m formula_y_a_b 0] 1 2 unfolding 3 by blast
  have b: "describe ?i = ''1 ~ 1''"
    using describe_rendering [of INTERCEPT ?i formula_y_a_b 0] 4 unfolding 5 by blast
  have c: "describe ?e = ''~ 0''"
    using describe_rendering [of INTERCEPT ?e formula_y_a_b 0] 6 7 unfolding 8 by blast
  have d: "describe ?b = ''1 ~ b''"
    using describe_rendering [of INTERCEPT ?b formula_y_a_b 0] 9 10 unfolding 11 by blast
  have e: "describe ?y = ''y ~ a + b''"
    using describe_rendering [of INTERCEPT ?y formula_y_a_b 0] 12 unfolding 13 by blast
  show ?thesis using a b c d e 12 by blast
qed

theorem describe_empty_lhs_counterexample:
  "describe (ModelDesc_init [] []) = ''~ 0''
   \<and> join '' + '' (map term_code (lhs_termlist (ModelDesc_init [] []))) @ '' ~ ''
       @ join '' + '' (''0'' # map name (rhs_termlist (ModelDesc_init [] []))) = '' ~ 0''"
  by code_simp

text \<open>
  C9. Every \<^verbatim>\<open>IntermediateExpr\<close> of an evaluation satisfies the invariant: it is never
  both with an intercept and with the intercept removed, and an intercept has an origin.
  This holds of what the constructor returns and of every value of \<^verbatim>\<open>eval\<close>, and the
  assertions of the constructor never fail during an evaluation.
\<close>

theorem intercept_invariant_holds:
  "(eval env tree req = Inr (Expr x) \<longrightarrow> intercept_invariant x)
   \<and> eval env tree req \<noteq> Inl AssertionError
   \<and> (IntermediateExpr_init icpt icpt_origin icpt_removed ts = Inr y \<longrightarrow> intercept_invariant y)"
proof -
  have 1: "eval env tree req = Inr (Expr x) \<longrightarrow> intercept_invariant x"
    using eval_Expr_wf [of env tree req x] by (simp add: wf_expr_def)
  have 2: "eval env tree req \<noteq> Inl AssertionError"
    using eval_Inl_CharltonError [of env tree req AssertionError] by auto
  have 3: "IntermediateExpr_init icpt icpt_origin icpt_removed ts = Inr y
             \<longrightarrow> intercept_invariant y"
    by (auto simp: IntermediateExpr_init_def intercept_invariant_def split: if_splits)
  show ?thesis using 1 2 3 by blast
qed

theorem intercept_invariant_holds_witness:
  "eval 0 formula_0_plus_1 True =
     Inr (Expr \<lparr>intercept = True, intercept_origin = Some (OriginObj (Origin ''0 + 1'' 4 5)),
                intercept_removed = False, terms = []\<rparr>)
   \<and> intercept_invariant
       \<lparr>intercept = True, intercept_origin = Some (OriginObj (Origin ''0 + 1'' 4 5)),
        intercept_removed = False, terms = []\<rparr>
   \<and> IntermediateExpr_init True (Some (OriginObj (Origin ''0 + 1'' 4 5))) False [] =
     Inr \<lparr>intercept = True, intercept_origin = Some (OriginObj (Origin ''0 + 1'' 4 5)),
          intercept_removed = False, terms = []\<rparr>"
proof -
  let ?x = "\<lparr>intercept = True, intercept_origin = Some (OriginObj (Origin ''0 + 1'' 4 5)),
                intercept_removed = False, terms = []\<rparr>"
  have 1: "eval 0 formula_0_plus_1 True = Inr (Expr ?x)" by code_simp
  have 2: "IntermediateExpr_init True (Some (OriginObj (Origin ''0 + 1'' 4 5))) False [] = Inr ?x"
    by code_simp
  from intercept_invariant_holds [of 0 formula_0_plus_1 True ?x True
      "Some (OriginObj (Origin ''0 + 1'' 4 5))" False "[]" ?x] 1 2
  show ?thesis by blast
qed

text \<open>
  C10. The check before an interaction rejects an operand exactly when its intercept
  is pending (\<^verbatim>\<open>intercept\<close> true); an operand whose intercept was removed passes, as
  the left operand of \<^verbatim>\<open>(a - 1):b\<close> does. So \<^verbatim>\<open>:\<close>, \<^verbatim>\<open>*\<close> and \<^verbatim>\<open>/\<close> fail exactly
  when one of their operands has \<^verbatim>\<open>intercept\<close> true, and \<^verbatim>\<open>**\<close> fails for an
  intercept exactly when its left operand has; \<^verbatim>\<open>intercept_removed\<close> plays no part.
  What an interaction returns, and so what \<^verbatim>\<open>:\<close>, \<^verbatim>\<open>*\<close>, \<^verbatim>\<open>/\<close> and \<^verbatim>\<open>**\<close> return,
  has neither \<^verbatim>\<open>intercept\<close> nor \<^verbatim>\<open>intercept_removed\<close> set: the removal is dropped.
\<close>

theorem check_interactable_removed:
  "(check_interactable x = Inr () \<longleftrightarrow> \<not> intercept x)
   \<and> (intercept_removed x \<and> \<not> intercept x \<longrightarrow> check_interactable x = Inr ())
   \<and> (interaction left_expr right_expr = Inr y \<longrightarrow> \<not> intercept y \<and> \<not> intercept_removed y)
   \<and> (node_type tree \<in> {'':'', ''*'', ''/'', ''**''} \<longrightarrow> length (args tree) = 2 \<longrightarrow>
        eval env tree req = Inr (Expr z) \<longrightarrow> \<not> intercept z \<and> \<not> intercept_removed z)
   \<and> eval env formula_a_minus_1 True =
       Inr (Expr \<lparr>intercept = False, intercept_origin = None, intercept_removed = True,
                  terms = [Term [EvalFactor ''a'' env (Some (Origin ''(a - 1):b'' 1 2))]]\<rparr>)
   \<and> eval env formula_a_minus_1_interact_b req =
       Inr (Expr \<lparr>intercept = False, intercept_origin = None, intercept_removed = False,
                  terms = [Term [EvalFactor ''a'' env (Some (Origin ''(a - 1):b'' 1 2)),
                                 EvalFactor ''b'' env (Some (Origin ''(a - 1):b'' 8 9))]]\<rparr>)
   \<and> check_interactable x =
       (if intercept x
        then Inl (CharltonError ''intercept term cannot interact with anything else''
                    (intercept_origin x))
        else Inr ())
   \<and> (args tree = [l, r] \<longrightarrow> eval env l True = Inr (Expr le) \<longrightarrow>
        eval env r True = Inr (Expr re) \<longrightarrow>
        (node_type tree = '':'' \<longrightarrow>
           eval env tree req =
             (if intercept le
              then Inl (CharltonError ''intercept term cannot interact with anything else''
                          (intercept_origin le))
              else if intercept re
              then Inl (CharltonError ''intercept term cannot interact with anything else''
                          (intercept_origin re))
              else Inr (Expr \<lparr>intercept = False, intercept_origin = None,
                              intercept_removed = False,
                              terms = to_unique_tuple Term_eq
                                (interaction_terms (terms le) (terms re))\<rparr>)))
        \<and> (node_type tree = ''*'' \<longrightarrow>
           eval env tree req =
             (if intercept le
              then Inl (CharltonError ''intercept term cannot interact with anything else''
                          (intercept_origin le))
              else if intercept re
              then Inl (CharltonError ''intercept term cannot interact with anything else''
                          (intercept_origin re))
              else Inr (Expr \<lparr>intercept = False, intercept_origin = None,
                              intercept_removed = False,
                              terms = to_unique_tuple Term_eq
                                (terms le @ terms re
                                 @ interaction_terms (terms le) (terms re))\<rparr>)))
        \<and> (node_type tree = ''/'' \<longrightarrow>
           eval env tree req =
             (if intercept le
              then Inl (CharltonError ''intercept term cannot interact with anything else''
                          (intercept_origin le))
              else if intercept re
              then Inl (CharltonError ''intercept term cannot interact with anything else''
                          (intercept_origin re))
              else Inr (Expr \<lparr>intercept = False, intercept_origin = None,
                              intercept_removed = False,
                              terms = to_unique_tuple Term_eq
                                (terms le
                                 @ interaction_terms
                                     [Term_init (concat (map factors (terms le)))]
                                     (terms re))\<rparr>))))
   \<and> (args tree = [l, r] \<longrightarrow> eval env l True = Inr (Expr le) \<longrightarrow> node_type tree = ''**'' \<longrightarrow>
        eval env tree req =
          (if intercept le
           then Inl (CharltonError ''intercept term cannot interact with anything else''
                       (intercept_origin le))
           else
             (case (if node_type r = ''ONE'' \<or> node_type r = ''NUMBER''
                    then int_of_str (extra (token r)) else None) of
                None \<Rightarrow> Inl (CharltonError power_message (Some (NodeObj r)))
              | Some k \<Rightarrow>
                  if k < 1 then Inl (CharltonError power_message (Some (NodeObj r)))
                  else Inr (Expr \<lparr>intercept = False, intercept_origin = None,
                                  intercept_removed = False,
                                  terms = power_terms (terms le)
                                    (min (length (terms le)) (nat k))\<rparr>))))
   \<and> eval env formula_1_prod_a req =
       Inl (CharltonError ''intercept term cannot interact with anything else''
              (Some (OriginObj (Origin ''1 * a'' 0 1))))
   \<and> eval env formula_a_minus_1_prod_b req =
       Inr (Expr \<lparr>intercept = False, intercept_origin = None, intercept_removed = False,
                terms = [Term [EvalFactor ''a'' env (Some (Origin ''(a - 1)*b'' 1 2))],
                         Term [EvalFactor ''b'' env (Some (Origin ''(a - 1)*b'' 8 9))],
                         Term [EvalFactor ''a'' env (Some (Origin ''(a - 1)*b'' 1 2)),
                               EvalFactor ''b'' env (Some (Origin ''(a - 1)*b'' 8 9))]]\<rparr>)"
proof -
  have old: "(check_interactable x = Inr () \<longleftrightarrow> \<not> intercept x)
   \<and> (intercept_removed x \<and> \<not> intercept x \<longrightarrow> check_interactable x = Inr ())
   \<and> (interaction left_expr right_expr = Inr y \<longrightarrow> \<not> intercept y \<and> \<not> intercept_removed y)
   \<and> (node_type tree \<in> {'':'', ''*'', ''/'', ''**''} \<longrightarrow> length (args tree) = 2 \<longrightarrow>
        eval env tree req = Inr (Expr z) \<longrightarrow> \<not> intercept z \<and> \<not> intercept_removed z)"
    using interaction_flags [of left_expr right_expr y] interaction_ops_flags [of tree env req z]
    by (simp add: check_interactable_Inr)
  have chk: "check_interactable x =
       (if intercept x
        then Inl (CharltonError ''intercept term cannot interact with anything else''
                    (intercept_origin x))
        else Inr ())"
    by (rule check_interactable_simps)
  note binary =
    eval_interact_cases [of tree l r env le re req]
    eval_prod_cases [of tree l r env le re req]
    eval_div_cases [of tree l r env le re req]
  note power = eval_power_cases [of tree l r env le req]
  show ?thesis
    using old chk binary power
    by (simp only: ex_a_minus_1 ex_a_minus_1_interact_b ex_1_prod_a ex_a_minus_1_prod_b)
      blast
qed

theorem check_interactable_removed_witness:
  "check_interactable
     \<lparr>intercept = False, intercept_origin = None, intercept_removed = True,
      terms = [Term [EvalFactor ''a'' 0 (Some (Origin ''(a - 1)*b'' 1 2))]]\<rparr> = Inr ()
   \<and> node_type formula_a_minus_1_prod_b = ''*''
   \<and> eval 0 (op_at ''(a - 1)*b'' ''-'' 3 (var ''(a - 1)*b'' ''a'' 1)
               (leaf ''ONE'' ''1'' (Origin ''(a - 1)*b'' 5 6))) True =
       Inr (Expr \<lparr>intercept = False, intercept_origin = None, intercept_removed = True,
                  terms = [Term [EvalFactor ''a'' 0 (Some (Origin ''(a - 1)*b'' 1 2))]]\<rparr>)
   \<and> eval 0 formula_a_minus_1_prod_b True =
       Inr (Expr \<lparr>intercept = False, intercept_origin = None, intercept_removed = False,
                terms = [Term [EvalFactor ''a'' 0 (Some (Origin ''(a - 1)*b'' 1 2))],
                         Term [EvalFactor ''b'' 0 (Some (Origin ''(a - 1)*b'' 8 9))],
                         Term [EvalFactor ''a'' 0 (Some (Origin ''(a - 1)*b'' 1 2)),
                               EvalFactor ''b'' 0 (Some (Origin ''(a - 1)*b'' 8 9))]]\<rparr>)
   \<and> node_type formula_1_prod_a = ''*''
   \<and> eval 0 formula_1_prod_a True =
       Inl (CharltonError ''intercept term cannot interact with anything else''
              (Some (OriginObj (Origin ''1 * a'' 0 1))))"
proof -
  let ?l = "op_at ''(a - 1)*b'' ''-'' 3 (var ''(a - 1)*b'' ''a'' 1)
               (leaf ''ONE'' ''1'' (Origin ''(a - 1)*b'' 5 6))"
  let ?r = "var ''(a - 1)*b'' ''b'' 8"
  let ?le = "\<lparr>intercept = False, intercept_origin = None, intercept_removed = True,
      terms = [Term [EvalFactor ''a'' 0 (Some (Origin ''(a - 1)*b'' 1 2))]]\<rparr>"
  let ?re = "\<lparr>intercept = False, intercept_origin = None, intercept_removed = False,
      terms = [Term [EvalFactor ''b'' 0 (Some (Origin ''(a - 1)*b'' 8 9))]]\<rparr>"
  have 1: "node_type formula_a_minus_1_prod_b = ''*''" by code_simp
  have 2: "args formula_a_minus_1_prod_b = [?l, ?r]"
    by (simp add: formula_a_minus_1_prod_b_def op_at_def binary_def)
  have 3: "eval 0 ?l True = Inr (Expr ?le)" by code_simp
  have 4: "eval 0 ?r True = Inr (Expr ?re)" by code_simp
  have 5: "to_unique_tuple Term_eq
             (terms ?le @ terms ?re @ interaction_terms (terms ?le) (terms ?re)) =
           [Term [EvalFactor ''a'' 0 (Some (Origin ''(a - 1)*b'' 1 2))],
            Term [EvalFactor ''b'' 0 (Some (Origin ''(a - 1)*b'' 8 9))],
            Term [EvalFactor ''a'' 0 (Some (Origin ''(a - 1)*b'' 1 2)),
                  EvalFactor ''b'' 0 (Some (Origin ''(a - 1)*b'' 8 9))]]"
    by code_simp
  have 6: "intercept_removed ?le \<and> \<not> intercept ?le" by simp
  note t = check_interactable_removed
    [of ?le ?le ?le ?le formula_a_minus_1_prod_b 0 True ?le ?l ?r ?le ?re]
  have c: "check_interactable ?le = Inr ()"
    using t 6 by blast
  have "eval 0 formula_a_minus_1_prod_b True =
          (if intercept ?le
           then Inl (CharltonError ''intercept term cannot interact with anything else''
                       (intercept_origin ?le))
           else if intercept ?re
           then Inl (CharltonError ''intercept term cannot interact with anything else''
                       (intercept_origin ?re))
           else Inr (Expr \<lparr>intercept = False, intercept_origin = None,
                           intercept_removed = False,
                           terms = to_unique_tuple Term_eq
                             (terms ?le @ terms ?re
                              @ interaction_terms (terms ?le) (terms ?re))\<rparr>))"
    using t 1 2 3 4 by blast
  then have a: "eval 0 formula_a_minus_1_prod_b True =
       Inr (Expr \<lparr>intercept = False, intercept_origin = None, intercept_removed = False,
                terms = [Term [EvalFactor ''a'' 0 (Some (Origin ''(a - 1)*b'' 1 2))],
                         Term [EvalFactor ''b'' 0 (Some (Origin ''(a - 1)*b'' 8 9))],
                         Term [EvalFactor ''a'' 0 (Some (Origin ''(a - 1)*b'' 1 2)),
                               EvalFactor ''b'' 0 (Some (Origin ''(a - 1)*b'' 8 9))]]\<rparr>)"
    unfolding 5 by simp
  let ?l' = "leaf ''ONE'' ''1'' (Origin ''1 * a'' 0 1)"
  let ?r' = "var ''1 * a'' ''a'' 4"
  let ?le' = "\<lparr>intercept = True, intercept_origin = Some (OriginObj (Origin ''1 * a'' 0 1)),
      intercept_removed = False, terms = []\<rparr>"
  let ?re' = "\<lparr>intercept = False, intercept_origin = None, intercept_removed = False,
      terms = [Term [EvalFactor ''a'' 0 (Some (Origin ''1 * a'' 4 5))]]\<rparr>"
  have 11: "node_type formula_1_prod_a = ''*''" by code_simp
  have 12: "args formula_1_prod_a = [?l', ?r']"
    by (simp add: formula_1_prod_a_def op_at_def binary_def)
  have 13: "eval 0 ?l' True = Inr (Expr ?le')" by code_simp
  have 14: "eval 0 ?r' True = Inr (Expr ?re')" by code_simp
  note t' = check_interactable_removed
    [of ?le' ?le' ?le' ?le' formula_1_prod_a 0 True ?le' ?l' ?r' ?le' ?re']
  have "eval 0 formula_1_prod_a True =
          (if intercept ?le'
           then Inl (CharltonError ''intercept term cannot interact with anything else''
                       (intercept_origin ?le'))
           else if intercept ?re'
           then Inl (CharltonError ''intercept term cannot interact with anything else''
                       (intercept_origin ?re'))
           else Inr (Expr \<lparr>intercept = False, intercept_origin = None,
                           intercept_removed = False,
                           terms = to_unique_tuple Term_eq
                             (terms ?le' @ terms ?re'
                              @ interaction_terms (terms ?le') (terms ?re'))\<rparr>))"
    using t' 11 12 13 14 by blast
  then have b: "eval 0 formula_1_prod_a True =
       Inl (CharltonError ''intercept term cannot interact with anything else''
              (Some (OriginObj (Origin ''1 * a'' 0 1))))"
    by simp
  show ?thesis using c a b 1 3 11 by blast
qed

end
